theory Spec2Isabelle
  imports Main
begin

section \<open>JavaScript strings and JSON values\<close>

text \<open>
  Strings are lists of 8-bit code units. \<open>str_includes\<close> is \<^verbatim>\<open>String.prototype.includes\<close>,
  \<open>startsWith\<close> is \<^verbatim>\<open>String.prototype.startsWith\<close>, \<open>join\<close> is the separator part of
  \<^verbatim>\<open>Array.prototype.join\<close>.
\<close>

definition startsWith :: "string \<Rightarrow> string \<Rightarrow> bool" where
  "startsWith s p = (take (length p) s = p)"

fun str_includes :: "string \<Rightarrow> string \<Rightarrow> bool" where
  "str_includes [] n = (n = [])"
| "str_includes (c # s) n = (startsWith (c # s) n \<or> str_includes s n)"

fun join :: "string \<Rightarrow> string list \<Rightarrow> string" where
  "join sep [] = []"
| "join sep [x] = x"
| "join sep (x # y # ys) = x @ sep @ join sep (y # ys)"

text \<open>
  \<open>find_sub sep s\<close> splits \<open>s\<close> at the first occurrence of \<open>sep\<close>: the text before it and
  the text after it.
\<close>

fun find_sub :: "string \<Rightarrow> string \<Rightarrow> (string \<times> string) option" where
  "find_sub sep [] = (if sep = [] then Some ([], []) else None)"
| "find_sub sep (c # s) =
     (if startsWith (c # s) sep then Some ([], drop (length sep) (c # s))
      else (case find_sub sep s of
              None \<Rightarrow> None
            | Some (a, b) \<Rightarrow> Some (c # a, b)))"

text \<open>
  A parsed JSON value. A number is held as the text that \<^verbatim>\<open>String(n)\<close> gives for it, so
  that the conversions to string and to boolean need no arithmetic. An object is the list of
  its properties as \<^verbatim>\<open>JSON.parse\<close> leaves it, one binding for a key. \<open>None\<close> of type \<open>json option\<close> is
  \<^verbatim>\<open>undefined\<close>.
\<close>

datatype json =
    JNull
  | JBool bool
  | JNum string
  | JStr string
  | JArr "json list"
  | JObj "(string \<times> json) list"

fun field :: "json \<Rightarrow> string \<Rightarrow> json option" where
  "field (JObj kvs) k = map_of kvs k"
| "field _ k = None"

fun truthy :: "json \<Rightarrow> bool" where
  "truthy JNull = False"
| "truthy (JBool b) = b"
| "truthy (JNum n) = (n \<noteq> ''0'')"
| "truthy (JStr s) = (s \<noteq> [])"
| "truthy (JArr xs) = True"
| "truthy (JObj kvs) = True"

definition truthy_opt :: "json option \<Rightarrow> bool" where
  "truthy_opt v = (case v of None \<Rightarrow> False | Some j \<Rightarrow> truthy j)"

fun toString :: "json \<Rightarrow> string" where
  "toString JNull = ''null''"
| "toString (JBool b) = (if b then ''true'' else ''false'')"
| "toString (JNum n) = n"
| "toString (JStr s) = s"
| "toString (JArr xs) = join '','' (map (\<lambda>x. if x = JNull then [] else toString x) xs)"
| "toString (JObj kvs) = ''[object Object]''"

text \<open>A value inside a template literal, and an element under \<^verbatim>\<open>Array.prototype.join\<close>.\<close>

definition template :: "json option \<Rightarrow> string" where
  "template v = (case v of None \<Rightarrow> ''undefined'' | Some j \<Rightarrow> toString j)"

definition join_elem :: "json option \<Rightarrow> string" where
  "join_elem v = (case v of None \<Rightarrow> [] | Some JNull \<Rightarrow> [] | Some j \<Rightarrow> toString j)"

text \<open>
  An object literal whose property values may be \<^verbatim>\<open>undefined\<close>: such properties do not
  survive \<^verbatim>\<open>JSON.stringify\<close>, which is the only use the source makes of these objects.
\<close>

fun obj :: "(string \<times> json option) list \<Rightarrow> (string \<times> json) list" where
  "obj [] = []"
| "obj ((k, None) # kvs) = obj kvs"
| "obj ((k, Some v) # kvs) = (k, v) # obj kvs"

text \<open>
  The platform's \<^verbatim>\<open>JSON.parse\<close> (\<open>None\<close> when it throws) and \<^verbatim>\<open>JSON.stringify\<close>
  are parameters of the model.
\<close>

record js =
  JSON_parse :: "string \<Rightarrow> json option"
  JSON_stringify :: "json \<Rightarrow> string"

section \<open>Dialect translation: OpenAI request to Google request\<close>

text \<open>
  A thrown \<^verbatim>\<open>Error\<close> is its message; every \<^verbatim>\<open>TypeError\<close> of a property read on
  \<^verbatim>\<open>null\<close> or \<^verbatim>\<open>undefined\<close>, or of a call of something that is no function, is the
  one message \<open>TypeError\<close>.
\<close>

definition TypeError :: string where
  "TypeError = ''TypeError''"

text \<open>
  \<^verbatim>\<open>url.match(/^data:(image\/.*?);base64,(.*)$/)\<close>: the two groups. The dot matches no
  line terminator and the first group is lazy, so the split is at the first
  \<^verbatim>\<open>;base64,\<close> after \<^verbatim>\<open>data:image/\<close>, and a line terminator anywhere after
  \<^verbatim>\<open>data:\<close> leaves no match.
\<close>

definition line_terminator :: "char \<Rightarrow> bool" where
  "line_terminator c = (c = CHR 0x0A \<or> c = CHR 0x0D)"

definition match_data_url :: "string \<Rightarrow> (string \<times> string) option" where
  "match_data_url url =
     (if startsWith url ''data:image/'' \<and> \<not> list_ex line_terminator url then
        (case find_sub '';base64,'' (drop 11 url) of
           None \<Rightarrow> None
         | Some (a, b) \<Rightarrow> Some (''image/'' @ a, b))
      else None)"

text \<open>The inner loop \<^verbatim>\<open>for (const part of message.content)\<close> with its \<^verbatim>\<open>googleParts.push\<close>.\<close>

fun partsLoop :: "json list \<Rightarrow> json list \<Rightarrow> string + json list" where
  "partsLoop [] googleParts = Inr googleParts"
| "partsLoop (part # rest) googleParts =
     (if part = JNull then Inl TypeError
      else if field part ''type'' = Some (JStr ''text'') then
        partsLoop rest (googleParts @ [JObj (obj [(''text'', field part ''text'')])])
      else if field part ''type'' = Some (JStr ''image_url'') then
        (case field part ''image_url'' of
           None \<Rightarrow> Inl TypeError
         | Some JNull \<Rightarrow> Inl TypeError
         | Some iu \<Rightarrow>
             (case field iu ''url'' of
                Some (JStr url) \<Rightarrow>
                  (case match_data_url url of
                     Some (mime, dat) \<Rightarrow>
                       partsLoop rest (googleParts @
                         [JObj [(''inlineData'',
                            JObj [(''mimeType'', JStr mime), (''data'', JStr dat)])]])
                   | None \<Rightarrow> partsLoop rest googleParts)
              | _ \<Rightarrow> Inl TypeError))
      else partsLoop rest googleParts)"

definition messageParts :: "json \<Rightarrow> string + json list" where
  "messageParts message =
     (case field message ''content'' of
        Some (JStr s) \<Rightarrow> Inr [JObj [(''text'', JStr s)]]
      | Some (JArr ps) \<Rightarrow> partsLoop ps []
      | _ \<Rightarrow> Inr [])"

definition googleRole :: "json \<Rightarrow> string" where
  "googleRole message =
     (if field message ''role'' = Some (JStr ''assistant'') then ''model'' else ''user'')"

text \<open>The outer loop \<^verbatim>\<open>for (const message of conversationMessages)\<close>.\<close>

fun messagesLoop :: "json list \<Rightarrow> json list \<Rightarrow> string + json list" where
  "messagesLoop [] googleContents = Inr googleContents"
| "messagesLoop (message # rest) googleContents =
     (case messageParts message of
        Inl e \<Rightarrow> Inl e
      | Inr googleParts \<Rightarrow>
          messagesLoop rest (googleContents @
            [JObj [(''role'', JStr (googleRole message)), (''parts'', JArr googleParts)]]))"

definition isSystem :: "json \<Rightarrow> bool" where
  "isSystem msg = (field msg ''role'' = Some (JStr ''system''))"

definition safetySettings :: json where
  "safetySettings = JArr
     [JObj [(''category'', JStr ''HARM_CATEGORY_HARASSMENT''), (''threshold'', JStr ''BLOCK_NONE'')],
      JObj [(''category'', JStr ''HARM_CATEGORY_HATE_SPEECH''), (''threshold'', JStr ''BLOCK_NONE'')],
      JObj [(''category'', JStr ''HARM_CATEGORY_SEXUALLY_EXPLICIT''), (''threshold'', JStr ''BLOCK_NONE'')],
      JObj [(''category'', JStr ''HARM_CATEGORY_DANGEROUS_CONTENT''), (''threshold'', JStr ''BLOCK_NONE'')]]"

definition systemText :: "json list \<Rightarrow> string" where
  "systemText systemMessages =
     join [CHR 0x0A] (map (\<lambda>msg. join_elem (field msg ''content'')) systemMessages)"

text \<open>
  \<^verbatim>\<open>_translateOpenAIToGoogle(openaiBody, modelName)\<close>; \<open>enableReasoning\<close> is
  \<^verbatim>\<open>this.serverSystem.enableReasoning\<close>. The model name is not used by the source.
\<close>

definition translateOpenAIToGoogle :: "bool \<Rightarrow> json \<Rightarrow> string + json" where
  "translateOpenAIToGoogle enableReasoning openaiBody =
     (case field openaiBody ''messages'' of
        Some (JArr messages) \<Rightarrow>
          if JNull \<in> set messages then Inl TypeError
          else
            (let systemMessages = filter isSystem messages;
                 systemInstruction =
                   (if length systemMessages > 0
                    then Some (JObj [(''parts'',
                           JArr [JObj [(''text'', JStr (systemText systemMessages))]])])
                    else None);
                 conversationMessages = filter (\<lambda>msg. \<not> isSystem msg) messages
             in case messagesLoop conversationMessages [] of
                  Inl e \<Rightarrow> Inl e
                | Inr googleContents \<Rightarrow>
                    Inr (JObj (obj
                      [(''contents'', Some (JArr googleContents)),
                       (''systemInstruction'', systemInstruction),
                       (''generationConfig'', Some (JObj (obj
                          [(''temperature'', field openaiBody ''temperature''),
                           (''topP'', field openaiBody ''top_p''),
                           (''topK'', field openaiBody ''top_k''),
                           (''maxOutputTokens'', field openaiBody ''max_tokens''),
                           (''stopSequences'', field openaiBody ''stop''),
                           (''thinkingConfig'',
                              if enableReasoning
                              then Some (JObj [(''includeThoughts'', JBool True)])
                              else None)]))),
                       (''safetySettings'', Some safetySettings)])))
      | _ \<Rightarrow> Inl TypeError)"

subsection \<open>The translation as the specification words it\<close>





section \<open>Configuration, server settings and the handler's state\<close>

text \<open>
  \<open>config\<close> holds the keys of \<^verbatim>\<open>_loadConfiguration\<close> that the request handler reads;
  \<open>serverSystem\<close> holds the fields of \<^verbatim>\<open>ProxyServerSystem\<close> that the admin routes set.
\<close>

record config =
  failureThreshold :: int
  switchOnUses :: int
  maxRetries :: int
  retryDelay :: int
  immediateSwitchStatusCodes :: "int list"

record serverSystem =
  streamingMode :: string
  enableReasoning :: bool
  enableNativeReasoning :: bool
  enableResume :: bool
  resumeLimit :: int
  redirect25to30 :: bool

text \<open>
  The frame that \<^verbatim>\<open>_forwardRequest\<close> serialises onto the relay socket. The two properties
  that only some handlers set are optional.
\<close>

record frame =
  path :: string
  http_method :: string
  headers :: "(string \<times> string) list"
  query_params :: "(string \<times> string) list"
  body :: string
  request_id :: string
  streaming_mode :: string
  is_generative :: "bool option"
  client_wants_stream :: "bool option"
  resume_on_prohibit :: bool
  resume_limit :: int

text \<open>
  The browser is outside the model: the outcome of the \<open>n\<close>-th call of
  \<^verbatim>\<open>launchOrSwitchContext\<close> is read from \<open>browser n\<close>. \<open>LaunchOk c\<close> is a context that
  reached the ready state, with \<open>c\<close> telling whether the page's relay socket is connected
  when the caller resumes; \<open>LaunchFail e\<close> is a thrown error with message \<open>e\<close>.
\<close>

datatype launch = LaunchOk bool | LaunchFail string

text \<open>
  The mutable fields of \<^verbatim>\<open>RequestHandler\<close>, with \<^verbatim>\<open>browserManager.currentAuthIndex\<close>,
  \<^verbatim>\<open>authSource.availableIndices\<close>, whether the connection registry holds a connection,
  and the frames sent on it so far.
\<close>

record world =
  failureCount :: int
  usageCount :: int
  activeRequestCount :: int
  pendingSwitch :: bool
  isAuthSwitching :: bool
  isSystemBusy :: bool
  currentAuthIndex :: int
  availableIndices :: "int list"
  connected :: bool
  sent :: "frame list"
  browser :: "nat \<Rightarrow> launch"
  launches :: nat

text \<open>
  \<^verbatim>\<open>launchOrSwitchContext(authIndex)\<close>: on success the index becomes current; on failure
  the previous context is closed already, so the relay is gone. An index that
  \<^verbatim>\<open>getAuth\<close> does not know (also \<^verbatim>\<open>null\<close>) fails.
\<close>

definition launchOrSwitchContext :: "int option \<Rightarrow> world \<Rightarrow> (string + unit) \<times> world" where
  "launchOrSwitchContext authIndex w =
     (case authIndex of
        None \<Rightarrow> (Inl ''Failed to get or parse auth source'', w\<lparr>connected := False\<rparr>)
      | Some i \<Rightarrow>
          if i \<notin> set (availableIndices w)
          then (Inl ''Failed to get or parse auth source'', w\<lparr>connected := False\<rparr>)
          else
            (case browser w (launches w) of
               LaunchOk c \<Rightarrow>
                 (Inr (), w\<lparr>launches := Suc (launches w), currentAuthIndex := i, connected := c\<rparr>)
             | LaunchFail e \<Rightarrow>
                 (Inl e, w\<lparr>launches := Suc (launches w), connected := False\<rparr>)))"

definition switchAccount :: "int option \<Rightarrow> world \<Rightarrow> (string + unit) \<times> world" where
  "switchAccount newAuthIndex w = launchOrSwitchContext newAuthIndex w"

fun indexOf :: "int list \<Rightarrow> int \<Rightarrow> nat option" where
  "indexOf [] x = None"
| "indexOf (y # ys) x =
     (if y = x then Some 0 else (case indexOf ys x of None \<Rightarrow> None | Some i \<Rightarrow> Some (Suc i)))"

definition getNextAuthIndex :: "world \<Rightarrow> int option" where
  "getNextAuthIndex w =
     (let available = availableIndices w in
      if length available = 0 then None
      else
        (case indexOf available (currentAuthIndex w) of
           None \<Rightarrow> Some (available ! 0)
         | Some currentIndexInArray \<Rightarrow>
             Some (available ! ((currentIndexInArray + 1) mod length available))))"

subsection \<open>The switch operation\<close>

text \<open>
  The value that \<^verbatim>\<open>_switchToNextAuth\<close> and \<^verbatim>\<open>_switchToSpecificAuth\<close> return:
  \<^verbatim>\<open>{success: false, reason: "Busy"}\<close>, \<^verbatim>\<open>{success: false, reason: "Invalid index"}\<close>,
  \<^verbatim>\<open>{success: true, newIndex}\<close> and \<^verbatim>\<open>{success: false, fallback: true, newIndex}\<close>.
\<close>

datatype switchResult = Busy | InvalidIndex | Success int | Fallback int

text \<open>
  \<^verbatim>\<open>_switchToNextAuth\<close> in two parts. \<open>switchToNextAuth_begin\<close> is the code up to the first
  \<^verbatim>\<open>await\<close>, which runs without interruption: the busy check and the two flags; \<open>None\<close>
  is the early return. \<open>switchToNextAuth_run\<close> is the rest: the browser calls, the
  counters and the \<^verbatim>\<open>finally\<close> block.
\<close>

definition switchToNextAuth_begin :: "world \<Rightarrow> world option" where
  "switchToNextAuth_begin w =
     (if isAuthSwitching w then None
      else Some (w\<lparr>isSystemBusy := True, isAuthSwitching := True\<rparr>))"

definition switch_finally :: "world \<Rightarrow> world" where
  "switch_finally w = w\<lparr>isAuthSwitching := False, isSystemBusy := False\<rparr>"

definition switchToNextAuth_run :: "world \<Rightarrow> (string + switchResult) \<times> world" where
  "switchToNextAuth_run w =
     (let previousAuthIndex = currentAuthIndex w;
          nextAuthIndex = getNextAuthIndex w
      in case switchAccount nextAuthIndex w of
           (Inr u, w1) \<Rightarrow>
             (Inr (Success (currentAuthIndex w1)),
              switch_finally (w1\<lparr>failureCount := 0, usageCount := 0\<rparr>))
         | (Inl error, w1) \<Rightarrow>
             (case launchOrSwitchContext (Some previousAuthIndex) w1 of
                (Inr u, w2) \<Rightarrow>
                  (Inr (Fallback (currentAuthIndex w2)),
                   switch_finally (w2\<lparr>failureCount := 0, usageCount := 0\<rparr>))
              | (Inl fallbackError, w2) \<Rightarrow> (Inl fallbackError, switch_finally w2)))"

definition switchToNextAuth :: "world \<Rightarrow> (string + switchResult) \<times> world" where
  "switchToNextAuth w =
     (case switchToNextAuth_begin w of
        None \<Rightarrow> (Inr Busy, w)
      | Some w1 \<Rightarrow> switchToNextAuth_run w1)"

text \<open>\<^verbatim>\<open>_switchToSpecificAuth(targetIndex)\<close>, in the same two parts.\<close>

definition switchToSpecificAuth_begin :: "int \<Rightarrow> world \<Rightarrow> switchResult + world" where
  "switchToSpecificAuth_begin targetIndex w =
     (if isAuthSwitching w then Inl Busy
      else if targetIndex \<notin> set (availableIndices w) then Inl InvalidIndex
      else Inr (w\<lparr>isSystemBusy := True, isAuthSwitching := True\<rparr>))"

definition switchToSpecificAuth_run :: "int \<Rightarrow> world \<Rightarrow> (string + switchResult) \<times> world" where
  "switchToSpecificAuth_run targetIndex w =
     (case switchAccount (Some targetIndex) w of
        (Inr u, w1) \<Rightarrow>
          (Inr (Success (currentAuthIndex w1)),
           switch_finally (w1\<lparr>failureCount := 0, usageCount := 0, pendingSwitch := False\<rparr>))
      | (Inl error, w1) \<Rightarrow> (Inl error, switch_finally w1))"

definition switchToSpecificAuth :: "int \<Rightarrow> world \<Rightarrow> (string + switchResult) \<times> world" where
  "switchToSpecificAuth targetIndex w =
     (case switchToSpecificAuth_begin targetIndex w of
        Inl r \<Rightarrow> (Inr r, w)
      | Inr w1 \<Rightarrow> switchToSpecificAuth_run targetIndex w1)"

text \<open>
  \<^verbatim>\<open>_tryExecutePendingSwitch\<close>: \<open>tryExecutePendingSwitch_begin\<close> is its guard followed by the
  uninterrupted start of \<^verbatim>\<open>_switchToNextAuth\<close>; \<open>None\<close> when no switch starts.
\<close>

definition tryExecutePendingSwitch_begin :: "world \<Rightarrow> world option" where
  "tryExecutePendingSwitch_begin w =
     (if pendingSwitch w \<and> activeRequestCount w = 0 \<and> \<not> isAuthSwitching w
      then switchToNextAuth_begin w
      else None)"

definition tryExecutePendingSwitch :: "world \<Rightarrow> world" where
  "tryExecutePendingSwitch w =
     (if pendingSwitch w \<and> activeRequestCount w = 0 \<and> \<not> isAuthSwitching w
      then (snd (switchToNextAuth w))\<lparr>pendingSwitch := False\<rparr>
      else w)"

section \<open>The HTTP response\<close>

text \<open>
  What the client receives is the list \<open>wire\<close>: the status line with the headers, written
  once when the first body byte or the end is written, then body chunks, then the end.
  \<open>res_status\<close>, \<open>res_set\<close>, \<open>res_write\<close>, \<open>res_end\<close> are \<^verbatim>\<open>res.status\<close>,
  \<^verbatim>\<open>res.set\<close>, \<^verbatim>\<open>res.write\<close>, \<^verbatim>\<open>res.end\<close>; header names are kept in lower case. A
  write after the end writes nothing.
\<close>

datatype wire = StatusLine int "(string \<times> string) list" | Body string | End

record response =
  statusCode :: int
  resHeaders :: "(string \<times> string) list"
  headersSent :: bool
  writableEnded :: bool
  wire :: "wire list"

definition nn :: string where
  "nn = [CHR 0x0A, CHR 0x0A]"

definition lower_char :: "char \<Rightarrow> char" where
  "lower_char c =
     (let n = (of_char c :: nat) in if 65 \<le> n \<and> n \<le> 90 then char_of (n + 32) else c)"

definition toLowerCase :: "string \<Rightarrow> string" where
  "toLowerCase s = map lower_char s"

fun set_header :: "string \<Rightarrow> string \<Rightarrow> (string \<times> string) list \<Rightarrow> (string \<times> string) list" where
  "set_header k v [] = [(k, v)]"
| "set_header k v ((k', v') # hs) =
     (if k' = k then (k, v) # hs else (k', v') # set_header k v hs)"

definition res_status :: "int \<Rightarrow> response \<Rightarrow> response" where
  "res_status c r = r\<lparr>statusCode := c\<rparr>"

definition res_set :: "string \<Rightarrow> string \<Rightarrow> response \<Rightarrow> response" where
  "res_set name v r = r\<lparr>resHeaders := set_header (toLowerCase name) v (resHeaders r)\<rparr>"

definition res_flush :: "response \<Rightarrow> response" where
  "res_flush r =
     (if headersSent r then r
      else r\<lparr>headersSent := True,
             wire := wire r @ [StatusLine (statusCode r) (resHeaders r)]\<rparr>)"

definition res_write :: "string \<Rightarrow> response \<Rightarrow> response" where
  "res_write s r =
     (if writableEnded r then r
      else (res_flush r)\<lparr>wire := wire (res_flush r) @ [Body s]\<rparr>)"

definition res_end :: "response \<Rightarrow> response" where
  "res_end r =
     (if writableEnded r then r
      else (res_flush r)\<lparr>writableEnded := True, wire := wire (res_flush r) @ [End]\<rparr>)"

text \<open>
  \<^verbatim>\<open>res.json(obj)\<close> and \<^verbatim>\<open>res.type(t).send(s)\<close> of Express: they set the content type
  (\<^verbatim>\<open>json\<close> only when none is set), write the body and end. The media type stands for
  the header value, to which Express adds a charset. Both throw once the headers are
  sent; \<open>res_json\<close> and \<open>res_type_send\<close> are the calls on a response whose headers are not
  sent, \<open>res_json_checked\<close> and \<open>res_type_send_checked\<close> the calls on any response.
\<close>

definition res_json :: "js \<Rightarrow> json \<Rightarrow> response \<Rightarrow> response" where
  "res_json js j r =
     res_end (res_write (JSON_stringify js j)
       (if map_of (resHeaders r) ''content-type'' = None
        then res_set ''Content-Type'' ''application/json'' r else r))"

definition res_type_send :: "string \<Rightarrow> string \<Rightarrow> response \<Rightarrow> response" where
  "res_type_send t s r = res_end (res_write s (res_set ''Content-Type'' t r))"

definition ERR_HTTP_HEADERS_SENT :: string where
  "ERR_HTTP_HEADERS_SENT = ''Cannot set headers after they are sent to the client''"

definition res_json_checked :: "js \<Rightarrow> json \<Rightarrow> response \<Rightarrow> string + response" where
  "res_json_checked js j r =
     (if headersSent r then Inl ERR_HTTP_HEADERS_SENT else Inr (res_json js j r))"

definition res_type_send_checked :: "string \<Rightarrow> string \<Rightarrow> response \<Rightarrow> string + response" where
  "res_type_send_checked t s r =
     (if headersSent r then Inl ERR_HTTP_HEADERS_SENT else Inr (res_type_send t s r))"

text \<open>A non-negative integer in decimal, for a status code inside a JSON body.\<close>

function showNat :: "nat \<Rightarrow> string" where
  "showNat n =
     (if n < 10 then [char_of (48 + n)] else showNat (n div 10) @ [char_of (48 + n mod 10)])"
  by pat_completeness auto
termination
  by (relation "measure id") auto

declare showNat.simps [simp del]

definition showInt :: "int \<Rightarrow> string" where
  "showInt i = (if i < 0 then CHR ''-'' # showNat (nat (- i)) else showNat (nat i))"

text \<open>\<^verbatim>\<open>status || d\<close> for a status that may be missing.\<close>

definition status_or :: "int option \<Rightarrow> int \<Rightarrow> int" where
  "status_or s d = (case s of None \<Rightarrow> d | Some c \<Rightarrow> if c = 0 then d else c)"

text \<open>\<^verbatim>\<open>_sendErrorResponse(res, status, message)\<close>.\<close>

definition sendErrorResponse :: "js \<Rightarrow> response \<Rightarrow> int option \<Rightarrow> string option \<Rightarrow> response" where
  "sendErrorResponse js res status message =
     (if \<not> headersSent res then
        res_json js
          (JObj [(''error'', JObj (obj
             [(''code'', Some (JNum (showInt (status_or status 500)))),
              (''message'', map_option JStr message),
              (''status'', Some (JStr ''SERVICE_UNAVAILABLE''))]))])
          (res_status (status_or status 500) res)
      else res)"

text \<open>\<^verbatim>\<open>_handleRequestError(error, res)\<close>; the error is its message.\<close>

definition handleRequestError :: "js \<Rightarrow> string \<Rightarrow> response \<Rightarrow> response" where
  "handleRequestError js error res =
     (if headersSent res then (if \<not> writableEnded res then res_end res else res)
      else
        (let status = (if str_includes error ''Timeout'' then 504 else 500)
         in sendErrorResponse js res (Some status) (Some error)))"

text \<open>\<^verbatim>\<open>_sendErrorChunkToClient(res, errorMessage)\<close>.\<close>

definition sendErrorChunkToClient :: "js \<Rightarrow> response \<Rightarrow> string option \<Rightarrow> response" where
  "sendErrorChunkToClient js res errorMessage =
     (let chunk = ''data: '' @ JSON_stringify js
            (JObj [(''error'', JObj (obj
               [(''message'', map_option JStr errorMessage),
                (''code'', Some (JStr ''proxy_error''))]))]) @ nn
      in if \<not> writableEnded res then res_write chunk res else res)"

section \<open>Relay events and the per-request queue\<close>

text \<open>
  A message as the handler takes it from its queue: the relay's event (\<open>event_type\<close>
  \<^verbatim>\<open>response_headers\<close>, \<^verbatim>\<open>chunk\<close> or \<^verbatim>\<open>error\<close>) or the sentinel that
  \<^verbatim>\<open>_routeMessage\<close> puts for \<^verbatim>\<open>stream_close\<close>, whose \<^verbatim>\<open>type\<close> is
  \<^verbatim>\<open>STREAM_END\<close>. A property that is absent is \<open>None\<close> (the empty string for the two
  tags).
\<close>

record relay_msg =
  event_type :: string
  msg_type :: string
  status :: "int option"
  message :: "string option"
  data :: "string option"
  msg_headers :: "(string \<times> string) list"

definition STREAM_END :: relay_msg where
  "STREAM_END = \<lparr>event_type = [], msg_type = ''STREAM_END'', status = None, message = None,
     data = None, msg_headers = []\<rparr>"

definition has_data :: "relay_msg \<Rightarrow> bool" where
  "has_data m = (case data m of None \<Rightarrow> False | Some d \<Rightarrow> d \<noteq> [])"

text \<open>
  What the successive \<^verbatim>\<open>dequeue\<close> calls of one request give is a script: a message, or a
  rejection with its message (\<^verbatim>\<open>Queue timeout\<close>, \<^verbatim>\<open>Queue closed\<close>,
  \<^verbatim>\<open>Queue is closed\<close>). Every \<^verbatim>\<open>dequeue\<close> has a timeout, so when the relay sends nothing
  more, which is the end of the script, the call is rejected with \<^verbatim>\<open>Queue timeout\<close>.
\<close>

datatype deq = Msg relay_msg | Rejected string

fun dequeue :: "deq list \<Rightarrow> (string + relay_msg) \<times> deq list" where
  "dequeue [] = (Inl ''Queue timeout'', [])"
| "dequeue (Msg m # q) = (Inr m, q)"
| "dequeue (Rejected e # q) = (Inl e, q)"

text \<open>\<^verbatim>\<open>_forwardRequest(proxyRequest)\<close>.\<close>

definition forwardRequest :: "frame \<Rightarrow> world \<Rightarrow> (string + unit) \<times> world" where
  "forwardRequest proxyRequest w =
     (if connected w then (Inr (), w\<lparr>sent := sent w @ [proxyRequest]\<rparr>)
      else (Inl ''No available browser connection.'', w))"

section \<open>Failure handling\<close>

definition msg_fallback :: string where
  "msg_fallback = [CHR 0xE8, CHR 0x87, CHR 0xAA, CHR 0xE5, CHR 0x8A, CHR 0xA8, CHR 0xE5, CHR 0x88,
     CHR 0x87, CHR 0xE6, CHR 0x8D, CHR 0xA2, CHR 0xE5, CHR 0xA4, CHR 0xB1, CHR 0xE8, CHR 0xB4, CHR 0xA5,
     CHR 0xEF, CHR 0xBC, CHR 0x8C, CHR 0xE5, CHR 0xB7, CHR 0xB2, CHR 0xE5, CHR 0x9B, CHR 0x9E, CHR 0xE9,
     CHR 0x80, CHR 0x80, CHR 0xE5, CHR 0x8E, CHR 0x9F, CHR 0xE8, CHR 0xB4, CHR 0xA6, CHR 0xE5, CHR 0x8F,
     CHR 0xB7]"

definition msg_switch_failed :: string where
  "msg_switch_failed = [CHR 0xE6, CHR 0x9C, CHR 0x8D, CHR 0xE5, CHR 0x8A, CHR 0xA1, CHR 0xE6, CHR 0x9A,
     CHR 0x82, CHR 0xE6, CHR 0x97, CHR 0xB6, CHR 0xE4, CHR 0xB8, CHR 0x8D, CHR 0xE5, CHR 0x8F, CHR 0xAF,
     CHR 0xE7, CHR 0x94, CHR 0xA8] @ '' (Switch Failed)''"

text \<open>
  \<^verbatim>\<open>_handleRequestFailureAndSwitch(errorDetails, res)\<close>; \<open>withRes\<close> tells whether the caller
  passes its response or \<^verbatim>\<open>null\<close>. \<open>failureDecision\<close> is its code up to the call of
  \<^verbatim>\<open>_switchToNextAuth\<close>: the counter and the two conditions.
\<close>

definition failureDecision :: "config \<Rightarrow> relay_msg \<Rightarrow> world \<Rightarrow> bool \<times> world" where
  "failureDecision cfg errorDetails w =
     (let w1 = (if failureThreshold cfg > 0 then w\<lparr>failureCount := failureCount w + 1\<rparr> else w);
          isImmediateSwitch =
            (case status errorDetails of
               None \<Rightarrow> False
             | Some c \<Rightarrow> c \<in> set (immediateSwitchStatusCodes cfg));
          isThresholdReached =
            (failureThreshold cfg > 0 \<and> failureCount w1 \<ge> failureThreshold cfg)
      in (isImmediateSwitch \<or> isThresholdReached, w1))"

definition handleRequestFailureAndSwitch ::
  "config \<Rightarrow> js \<Rightarrow> relay_msg \<Rightarrow> bool \<Rightarrow> world \<Rightarrow> response \<Rightarrow> world \<times> response" where
  "handleRequestFailureAndSwitch cfg js errorDetails withRes w res =
     (case failureDecision cfg errorDetails w of
        (False, w1) \<Rightarrow> (w1, res)
      | (True, w1) \<Rightarrow>
          (case switchToNextAuth w1 of
             (Inr (Success newIndex), w2) \<Rightarrow> (w2, res)
           | (Inr (Fallback newIndex), w2) \<Rightarrow>
               (w2, if withRes then sendErrorChunkToClient js res (Some msg_fallback) else res)
           | (Inr r, w2) \<Rightarrow> (w2, res)
           | (Inl error, w2) \<Rightarrow>
               (w2, if withRes then sendErrorChunkToClient js res (Some msg_switch_failed)
                    else res)))"

text \<open>The reset \<^verbatim>\<open>if (this.failureCount > 0) this.failureCount = 0\<close> of the success paths.\<close>

definition resetFailureCount :: "world \<Rightarrow> world" where
  "resetFailureCount w = (if failureCount w > 0 then w\<lparr>failureCount := 0\<rparr> else w)"

section \<open>Pseudo streaming\<close>

text \<open>
  The keep-alive timer of \<^verbatim>\<open>_handlePseudoStreamResponse\<close> runs on the clock and is not
  part of the model; what it writes are comment lines of the event stream.

  \<open>attemptLoop\<close> is the loop \<^verbatim>\<open>for (let attempt = 1; attempt <= this.maxRetries; attempt++)\<close>
  from a given \<open>attempt\<close> on. It gives the thrown error of \<^verbatim>\<open>_forwardRequest\<close>, or
  \<^verbatim>\<open>lastMessage\<close>, \<^verbatim>\<open>requestFailed\<close> and the rest of the script. The wait of
  \<^verbatim>\<open>retryDelay\<close> takes time and changes nothing.
\<close>

definition timeoutMessage :: relay_msg where
  "timeoutMessage = \<lparr>event_type = ''error'', msg_type = [], status = Some 504,
     message = Some ''Timeout'', data = None, msg_headers = []\<rparr>"

definition aborted :: "relay_msg \<Rightarrow> bool" where
  "aborted m = (case message m of None \<Rightarrow> False | Some s \<Rightarrow> str_includes s ''aborted'')"

function attemptLoop ::
  "config \<Rightarrow> frame \<Rightarrow> int \<Rightarrow> relay_msg option \<Rightarrow> deq list \<Rightarrow> world
     \<Rightarrow> (string + relay_msg option \<times> bool \<times> deq list) \<times> world" where
  "attemptLoop cfg proxyRequest attempt lastMessage q w =
     (if attempt \<le> maxRetries cfg then
        (case forwardRequest proxyRequest w of
           (Inl error, w1) \<Rightarrow> (Inl error, w1)
         | (Inr u, w1) \<Rightarrow>
             (let lastMessage1 =
                    (case fst (dequeue q) of Inl timeoutError \<Rightarrow> timeoutMessage | Inr m \<Rightarrow> m);
                  q1 = snd (dequeue q)
              in if event_type lastMessage1 = ''error'' then
                   (if \<not> aborted lastMessage1 then
                      (if attempt < maxRetries cfg
                       then attemptLoop cfg proxyRequest (attempt + 1) (Some lastMessage1) q1 w1
                       else (Inr (Some lastMessage1, True, q1), w1))
                    else (Inr (Some lastMessage1, False, q1), w1))
                 else (Inr (Some lastMessage1, False, q1), w1)))
      else (Inr (lastMessage, False, q), w))"
  by pat_completeness auto
termination
  by (relation "measure (\<lambda>(cfg, proxyRequest, attempt, lastMessage, q, w).
        nat (maxRetries cfg + 1 - attempt))") auto

declare attemptLoop.simps [simp del]

definition sse_headers :: "response \<Rightarrow> response" where
  "sse_headers res =
     res_set ''Connection'' ''keep-alive''
       (res_set ''Cache-Control'' ''no-cache''
          (res_set ''Content-Type'' ''text/event-stream'' (res_status 200 res)))"

text \<open>
  \<open>pseudoStreamBody\<close> is the \<^verbatim>\<open>try\<close> block of \<^verbatim>\<open>_handlePseudoStreamResponse\<close>, giving the
  error it throws if any; \<open>handlePseudoStreamResponse\<close> adds the \<^verbatim>\<open>catch\<close> and the
  \<^verbatim>\<open>finally\<close>.
\<close>

definition pseudoStreamBody ::
  "config \<Rightarrow> js \<Rightarrow> frame \<Rightarrow> deq list \<Rightarrow> world \<Rightarrow> response
     \<Rightarrow> string option \<times> world \<times> response" where
  "pseudoStreamBody cfg js proxyRequest q w res =
     (case attemptLoop cfg proxyRequest 1 None q w of
        (Inl error, w1) \<Rightarrow> (Some error, w1, res)
      | (Inr (lastMessage, requestFailed, q1), w1) \<Rightarrow>
          if requestFailed then
            (case lastMessage of
               None \<Rightarrow> (Some TypeError, w1, res)
             | Some m \<Rightarrow>
                 (case handleRequestFailureAndSwitch cfg js m True w1 res of
                    (w2, res2) \<Rightarrow> (None, w2, sendErrorChunkToClient js res2 (message m))))
          else
            (let w2 = resetFailureCount w1 in
             case dequeue q1 of
               (Inl error, q2) \<Rightarrow> (Some error, w2, res)
             | (Inr dataMessage, q2) \<Rightarrow>
                 (case dequeue q2 of
                    (Inl error, q3) \<Rightarrow> (Some error, w2, res)
                  | (Inr endMessage, q3) \<Rightarrow>
                      (let res1 =
                             (if has_data dataMessage
                              then res_write (''data: '' @ the (data dataMessage) @ nn) res
                              else res)
                       in (None, w2, res_write (''data: [DONE]'' @ nn) res1)))))"

definition handlePseudoStreamResponse ::
  "config \<Rightarrow> js \<Rightarrow> frame \<Rightarrow> deq list \<Rightarrow> world \<Rightarrow> response \<Rightarrow> world \<times> response" where
  "handlePseudoStreamResponse cfg js proxyRequest q w res =
     (case pseudoStreamBody cfg js proxyRequest q w (sse_headers res) of
        (thrown, w1, res1) \<Rightarrow>
          (let res2 = (case thrown of None \<Rightarrow> res1 | Some error \<Rightarrow> handleRequestError js error res1)
           in (w1, if \<not> writableEnded res2 then res_end res2 else res2)))"

section \<open>Real streaming and non-streaming\<close>

text \<open>\<^verbatim>\<open>_setResponseHeaders(res, headerMessage, isStream)\<close>.\<close>

fun copyHeaders :: "bool \<Rightarrow> (string \<times> string) list \<Rightarrow> response \<Rightarrow> response" where
  "copyHeaders isStream [] res = res"
| "copyHeaders isStream ((name, v) # hs) res =
     (if toLowerCase name = ''content-length'' then copyHeaders isStream hs res
      else if isStream \<and> toLowerCase name = ''content-type'' then copyHeaders isStream hs res
      else copyHeaders isStream hs (res_set name v res))"

definition setResponseHeaders :: "response \<Rightarrow> relay_msg \<Rightarrow> bool \<Rightarrow> response" where
  "setResponseHeaders res headerMessage isStream =
     (let res1 = copyHeaders isStream (msg_headers headerMessage)
                   (res_status (status_or (status headerMessage) 200) res)
      in if isStream
         then res_set ''Connection'' ''keep-alive''
                (res_set ''Cache-Control'' ''no-cache''
                   (res_set ''Content-Type'' ''text/event-stream'' res1))
         else res1)"

text \<open>
  The loop of \<^verbatim>\<open>_handleRealStreamResponse\<close> that copies chunks until the end sentinel;
  the result is the error a \<^verbatim>\<open>dequeue\<close> throws, if any.
\<close>

fun realStreamLoop :: "deq list \<Rightarrow> response \<Rightarrow> string option \<times> response" where
  "realStreamLoop [] res = (Some ''Queue timeout'', res)"
| "realStreamLoop (Rejected e # q) res = (Some e, res)"
| "realStreamLoop (Msg dataMessage # q) res =
     (if msg_type dataMessage = ''STREAM_END'' then (None, res)
      else if has_data dataMessage
           then realStreamLoop q (res_write (the (data dataMessage)) res)
           else realStreamLoop q res)"

definition handleRealStreamResponse ::
  "config \<Rightarrow> js \<Rightarrow> frame \<Rightarrow> deq list \<Rightarrow> world \<Rightarrow> response
     \<Rightarrow> string option \<times> world \<times> response" where
  "handleRealStreamResponse cfg js proxyRequest q w res =
     (case forwardRequest proxyRequest w of
        (Inl error, w1) \<Rightarrow> (Some error, w1, res)
      | (Inr u, w1) \<Rightarrow>
          (case dequeue q of
             (Inl error, q1) \<Rightarrow> (Some error, w1, res)
           | (Inr headerMessage, q1) \<Rightarrow>
               if event_type headerMessage = ''error'' then
                 (case handleRequestFailureAndSwitch cfg js headerMessage False w1 res of
                    (w2, res2) \<Rightarrow>
                      (None, w2,
                       sendErrorResponse js res2 (status headerMessage) (message headerMessage)))
               else
                 (let w2 = resetFailureCount w1;
                      res1 = setResponseHeaders res headerMessage True
                  in case realStreamLoop q1 res1 of
                       (thrown, res2) \<Rightarrow>
                         (let res3 = (if \<not> writableEnded res2 then res_end res2 else res2)
                          in (if thrown = Some ''Queue timeout'' then None else thrown, w2, res3)))))"

text \<open>
  The loop shared by the non-streaming handler, the model list and the OpenAI
  non-streaming branch: concatenate the data of the chunk events until the end sentinel.
\<close>

fun bufferLoop :: "deq list \<Rightarrow> string \<Rightarrow> string + string" where
  "bufferLoop [] fullBody = Inl ''Queue timeout''"
| "bufferLoop (Rejected e # q) fullBody = Inl e"
| "bufferLoop (Msg m # q) fullBody =
     (if msg_type m = ''STREAM_END'' then Inr fullBody
      else if event_type m = ''chunk'' \<and> has_data m then bufferLoop q (fullBody @ the (data m))
      else bufferLoop q fullBody)"

text \<open>\<^verbatim>\<open>x?.[0]\<close> on a value that is neither \<^verbatim>\<open>null\<close> nor \<^verbatim>\<open>undefined\<close>.\<close>

fun index0 :: "json \<Rightarrow> json option" where
  "index0 (JArr (x # xs)) = Some x"
| "index0 (JObj kvs) = map_of kvs ''0''"
| "index0 (JStr (c # s)) = Some (JStr [c])"
| "index0 _ = None"

text \<open>
  \<^verbatim>\<open>parsedBody.candidates?.[0]\<close>: the candidate, \<^verbatim>\<open>undefined\<close>, or a \<^verbatim>\<open>TypeError\<close> when
  the parsed body is \<^verbatim>\<open>null\<close>.
\<close>

definition firstCandidate :: "json \<Rightarrow> string + json option" where
  "firstCandidate parsedBody =
     (if parsedBody = JNull then Inl TypeError
      else
        (case field parsedBody ''candidates'' of
           None \<Rightarrow> Inr None
         | Some JNull \<Rightarrow> Inr None
         | Some cs \<Rightarrow> Inr (index0 cs)))"

text \<open>\<^verbatim>\<open>candidate?.content?.parts\<close>.\<close>

definition candidateParts :: "json option \<Rightarrow> json option" where
  "candidateParts candidate =
     (case candidate of
        None \<Rightarrow> None
      | Some JNull \<Rightarrow> None
      | Some c \<Rightarrow>
          (case field c ''content'' of
             None \<Rightarrow> None
           | Some JNull \<Rightarrow> None
           | Some content \<Rightarrow> field content ''parts''))"

text \<open>
  \<^verbatim>\<open>parts.findIndex(p => p.inlineData)\<close> on an array: the index, \<open>Inr None\<close> for -1, or
  the \<^verbatim>\<open>TypeError\<close> of a \<^verbatim>\<open>null\<close> element met before.
\<close>

fun findImagePart :: "json list \<Rightarrow> string + nat option" where
  "findImagePart [] = Inr None"
| "findImagePart (p # ps) =
     (if p = JNull then Inl TypeError
      else if truthy_opt (field p ''inlineData'') then Inr (Some 0)
      else (case findImagePart ps of
              Inl e \<Rightarrow> Inl e
            | Inr None \<Rightarrow> Inr None
            | Inr (Some i) \<Rightarrow> Inr (Some (Suc i))))"

fun set_prop :: "(string \<times> json) list \<Rightarrow> string \<Rightarrow> json \<Rightarrow> (string \<times> json) list" where
  "set_prop [] k v = [(k, v)]"
| "set_prop ((k', v') # kvs) k v =
     (if k' = k then (k, v) # kvs else (k', v') # set_prop kvs k v)"

definition markdownImage :: "json \<Rightarrow> json" where
  "markdownImage img =
     JObj [(''text'', JStr (''![Image](data:'' @ template (field img ''mimeType'') @
       '';base64,'' @ template (field img ''data'') @ '')''))]"

text \<open>
  The assignment \<^verbatim>\<open>candidate.content.parts[i] = v\<close> seen from \<^verbatim>\<open>parsedBody\<close>, for a
  candidate that is the first element of the array \<^verbatim>\<open>candidates\<close> or the property
  \<^verbatim>\<open>0\<close> of the object \<^verbatim>\<open>candidates\<close>.
\<close>

definition setCandidatePart :: "json \<Rightarrow> nat \<Rightarrow> json \<Rightarrow> json" where
  "setCandidatePart parsedBody i v =
     (case parsedBody of
        JObj props \<Rightarrow>
          (case map_of props ''candidates'' of
             Some cs \<Rightarrow>
               (case index0 cs of
                  Some (JObj cand) \<Rightarrow>
                    (case map_of cand ''content'' of
                       Some (JObj content) \<Rightarrow>
                         (case map_of content ''parts'' of
                            Some (JArr parts) \<Rightarrow>
                              (let cand1 = JObj (set_prop cand ''content''
                                     (JObj (set_prop content ''parts'' (JArr (parts[i := v])))));
                                   cs1 = (case cs of
                                            JArr xs \<Rightarrow> JArr (xs[0 := cand1])
                                          | JObj kvs \<Rightarrow> JObj (set_prop kvs ''0'' cand1)
                                          | other \<Rightarrow> other)
                               in JObj (set_prop props ''candidates'' cs1))
                          | _ \<Rightarrow> parsedBody)
                     | _ \<Rightarrow> parsedBody)
                | _ \<Rightarrow> parsedBody)
           | None \<Rightarrow> parsedBody)
      | _ \<Rightarrow> parsedBody)"

text \<open>
  The image block of \<^verbatim>\<open>_handleNonStreamResponse\<close>: the body to send. Whatever is thrown
  inside is caught and leaves the body as it is.
\<close>

definition rewriteImage :: "js \<Rightarrow> string \<Rightarrow> string" where
  "rewriteImage js fullBody =
     (case JSON_parse js fullBody of
        None \<Rightarrow> fullBody
      | Some parsedBody \<Rightarrow>
          (case firstCandidate parsedBody of
             Inl e \<Rightarrow> fullBody
           | Inr candidate \<Rightarrow>
               (case candidateParts candidate of
                  Some (JArr parts) \<Rightarrow>
                    (case findImagePart parts of
                       Inr (Some imagePartIndex) \<Rightarrow>
                         (case field (parts ! imagePartIndex) ''inlineData'' of
                            Some img \<Rightarrow>
                              JSON_stringify js
                                (setCandidatePart parsedBody imagePartIndex (markdownImage img))
                          | None \<Rightarrow> fullBody)
                     | _ \<Rightarrow> fullBody)
                | _ \<Rightarrow> fullBody)))"

text \<open>
  \<^verbatim>\<open>_handleNonStreamResponse\<close>. The first component is the error that leaves the function
  (only \<^verbatim>\<open>_forwardRequest\<close> stands outside its \<^verbatim>\<open>try\<close>).
\<close>

definition nonStreamBody ::
  "config \<Rightarrow> js \<Rightarrow> deq list \<Rightarrow> world \<Rightarrow> response \<Rightarrow> string option \<times> world \<times> response" where
  "nonStreamBody cfg js q w res =
     (case dequeue q of
        (Inl error, q1) \<Rightarrow> (Some error, w, res)
      | (Inr headerMessage, q1) \<Rightarrow>
          if event_type headerMessage = ''error'' then
            (case handleRequestFailureAndSwitch cfg js headerMessage False w res of
               (w2, res2) \<Rightarrow>
                 (None, w2,
                  sendErrorResponse js res2 (Some (status_or (status headerMessage) 500))
                    (message headerMessage)))
          else
            (case bufferLoop q1 [] of
               Inl error \<Rightarrow> (Some error, w, res)
             | Inr fullBody \<Rightarrow>
                 (let w2 = resetFailureCount w;
                      fullBody1 = rewriteImage js fullBody
                  in case res_type_send_checked ''application/json''
                            (if fullBody1 = [] then ''{}'' else fullBody1)
                            (res_status (status_or (status headerMessage) 200) res) of
                       Inl error \<Rightarrow> (Some error, w2, res_status (status_or (status headerMessage) 200) res)
                     | Inr res1 \<Rightarrow> (None, w2, res1))))"

definition handleNonStreamResponse ::
  "config \<Rightarrow> js \<Rightarrow> frame \<Rightarrow> deq list \<Rightarrow> world \<Rightarrow> response
     \<Rightarrow> string option \<times> world \<times> response" where
  "handleNonStreamResponse cfg js proxyRequest q w res =
     (case forwardRequest proxyRequest w of
        (Inl error, w1) \<Rightarrow> (Some error, w1, res)
      | (Inr u, w1) \<Rightarrow>
          (case nonStreamBody cfg js q w1 res of
             (None, w2, res2) \<Rightarrow> (None, w2, res2)
           | (Some error, w2, res2) \<Rightarrow> (None, w2, handleRequestError js error res2)))"

section \<open>The request handlers\<close>

text \<open>
  The Express request: its headers under lower-case names, and its body as
  \<^verbatim>\<open>express.json()\<close> leaves it (\<open>None\<close> for \<^verbatim>\<open>undefined\<close>).
\<close>

record request =
  req_method :: string
  req_path :: string
  req_headers :: "(string \<times> string) list"
  req_query :: "(string \<times> string) list"
  req_body :: "json option"

text \<open>\<^verbatim>\<open>s.replace(pat, rep)\<close> with a string pattern: the first occurrence.\<close>

definition str_replace :: "string \<Rightarrow> string \<Rightarrow> string \<Rightarrow> string" where
  "str_replace s pat rep =
     (case find_sub pat s of None \<Rightarrow> s | Some (a, b) \<Rightarrow> a @ rep @ b)"

text \<open>
  The body change of \<^verbatim>\<open>_buildProxyRequest\<close> under native reasoning, on the deep copy of
  the body. Only an object body with a missing, falsy or object \<^verbatim>\<open>generationConfig\<close>
  changes what is serialised: a property set on an array is not serialised, and setting
  one on a primitive throws into the empty \<^verbatim>\<open>catch\<close>.
\<close>

definition includeThoughts :: json where
  "includeThoughts = JObj [(''includeThoughts'', JBool True)]"

definition nativeReasoningBody :: "json \<Rightarrow> json" where
  "nativeReasoningBody finalBody =
     (case finalBody of
        JObj kvs \<Rightarrow>
          (case map_of kvs ''generationConfig'' of
             Some (JObj gc) \<Rightarrow>
               JObj (set_prop kvs ''generationConfig''
                 (JObj (set_prop gc ''thinkingConfig'' includeThoughts)))
           | Some v \<Rightarrow>
               if truthy v then finalBody
               else JObj (set_prop kvs ''generationConfig''
                      (JObj [(''thinkingConfig'', includeThoughts)]))
           | None \<Rightarrow>
               JObj (set_prop kvs ''generationConfig''
                 (JObj [(''thinkingConfig'', includeThoughts)])))
      | _ \<Rightarrow> finalBody)"

definition buildProxyRequest :: "serverSystem \<Rightarrow> js \<Rightarrow> request \<Rightarrow> string \<Rightarrow> frame" where
  "buildProxyRequest sys js req requestId =
     (let finalBody =
            (if enableNativeReasoning sys \<and>
                (str_includes (req_path req) ''generateContent'' \<or>
                 str_includes (req_path req) ''streamGenerateContent'')
             then map_option nativeReasoningBody (req_body req)
             else req_body req)
      in \<lparr>path = req_path req,
          http_method = req_method req,
          headers = req_headers req,
          query_params = req_query req,
          body = (if truthy_opt finalBody then JSON_stringify js (the finalBody) else []),
          request_id = requestId,
          streaming_mode = streamingMode sys,
          is_generative = None,
          client_wants_stream = None,
          resume_on_prohibit = enableResume sys,
          resume_limit = resumeLimit sys\<rparr>)"

text \<open>
  The usage counter: the block \<^verbatim>\<open>if (this.config.switchOnUses > 0 && ... && !this.pendingSwitch)\<close>
  of both handlers, with \<open>generative\<close> the middle condition.
\<close>

definition countUse :: "config \<Rightarrow> bool \<Rightarrow> world \<Rightarrow> world" where
  "countUse cfg generative w =
     (if switchOnUses cfg > 0 \<and> generative \<and> \<not> pendingSwitch w then
        (let w1 = w\<lparr>usageCount := usageCount w + 1\<rparr>
         in if usageCount w1 \<ge> switchOnUses cfg then w1\<lparr>pendingSwitch := True\<rparr> else w1)
      else w)"

definition isGenerativeRequest :: "request \<Rightarrow> bool" where
  "isGenerativeRequest req =
     (req_method req = ''POST'' \<and>
      (str_includes (req_path req) ''generateContent'' \<or>
       str_includes (req_path req) ''streamGenerateContent''))"

text \<open>
  The end of both handlers' \<^verbatim>\<open>finally\<close>: the active count, clamped, and the pending
  switch.
\<close>

definition finalise :: "world \<Rightarrow> world" where
  "finalise w =
     (let w1 = w\<lparr>activeRequestCount := activeRequestCount w - 1\<rparr>;
          w2 = (if activeRequestCount w1 < 0 then w1\<lparr>activeRequestCount := 0\<rparr> else w1)
      in tryExecutePendingSwitch w2)"

text \<open>
  \<^verbatim>\<open>processRequest\<close> up to the usage counter: the gate, the recovery of a lost relay and
  the busy check. \<open>Some (status, message)\<close> is the error response of an early return.
\<close>

definition processRequest_accept ::
  "config \<Rightarrow> request \<Rightarrow> world \<Rightarrow> (int \<times> string) option \<times> world" where
  "processRequest_accept cfg req w =
     (if pendingSwitch w \<or> isAuthSwitching w
      then (Some (503, ''Server rotating accounts...''), w)
      else
        (let w1 = w\<lparr>activeRequestCount := activeRequestCount w + 1\<rparr>;
             recovered =
               (if \<not> connected w1 then
                  (if isSystemBusy w1
                   then (Some (503, ''Server recovering...''),
                         w1\<lparr>activeRequestCount := activeRequestCount w1 - 1\<rparr>)
                   else
                     (case launchOrSwitchContext (Some (currentAuthIndex w1))
                             (w1\<lparr>isSystemBusy := True\<rparr>) of
                        (Inl error, w2) \<Rightarrow>
                          (Some (503, ''Service unavailable''),
                           w2\<lparr>activeRequestCount := activeRequestCount w2 - 1,
                               isSystemBusy := False\<rparr>)
                      | (Inr u, w2) \<Rightarrow> (None, w2\<lparr>isSystemBusy := False\<rparr>)))
                else (None, w1))
         in case recovered of
              (Some r, w2) \<Rightarrow> (Some r, w2)
            | (None, w2) \<Rightarrow>
                if isSystemBusy w2
                then (Some (503, ''Server busy''),
                      w2\<lparr>activeRequestCount := activeRequestCount w2 - 1\<rparr>)
                else (None, countUse cfg (isGenerativeRequest req) w2)))"

definition wantsStream :: "request \<Rightarrow> bool" where
  "wantsStream req =
     ((case map_of (req_headers req) ''accept'' of
         None \<Rightarrow> False
       | Some a \<Rightarrow> a \<noteq> [] \<and> str_includes a ''text/event-stream'') \<or>
      str_includes (req_path req) '':streamGenerateContent'')"

text \<open>The frame of \<^verbatim>\<open>processRequest\<close> before the choice of the response mode.\<close>

definition passthroughFrame :: "serverSystem \<Rightarrow> js \<Rightarrow> request \<Rightarrow> string \<Rightarrow> frame" where
  "passthroughFrame sys js req requestId =
     (let proxyRequest = buildProxyRequest sys js req requestId;
          proxyRequest1 =
            (if redirect25to30 sys \<and> path proxyRequest \<noteq> [] \<and>
                str_includes (path proxyRequest) ''gemini-2.5-pro''
             then proxyRequest\<lparr>path :=
                    str_replace (path proxyRequest) ''gemini-2.5-pro'' ''gemini-3-pro-preview''\<rparr>
             else proxyRequest)
      in proxyRequest1\<lparr>is_generative := Some (isGenerativeRequest req)\<rparr>)"

text \<open>The \<^verbatim>\<open>try\<close> block of \<^verbatim>\<open>processRequest\<close>, with the error that reaches its \<^verbatim>\<open>catch\<close>.\<close>

definition dispatch ::
  "config \<Rightarrow> serverSystem \<Rightarrow> js \<Rightarrow> request \<Rightarrow> frame \<Rightarrow> deq list \<Rightarrow> world \<Rightarrow> response
     \<Rightarrow> string option \<times> world \<times> response" where
  "dispatch cfg sys js req proxyRequest q w res =
     (if wantsStream req then
        (if streamingMode sys = ''fake''
         then (case handlePseudoStreamResponse cfg js proxyRequest q w res of
                 (w1, res1) \<Rightarrow> (None, w1, res1))
         else handleRealStreamResponse cfg js proxyRequest q w res)
      else handleNonStreamResponse cfg js (proxyRequest\<lparr>streaming_mode := ''fake''\<rparr>) q w res)"

definition processRequest ::
  "config \<Rightarrow> serverSystem \<Rightarrow> js \<Rightarrow> request \<Rightarrow> string \<Rightarrow> deq list \<Rightarrow> world \<Rightarrow> response
     \<Rightarrow> world \<times> response" where
  "processRequest cfg sys js req requestId q w res =
     (case processRequest_accept cfg req w of
        (Some (st, m), w1) \<Rightarrow> (w1, sendErrorResponse js res (Some st) (Some m))
      | (None, w1) \<Rightarrow>
          (case dispatch cfg sys js req (passthroughFrame sys js req requestId) q w1 res of
             (None, w2, res2) \<Rightarrow> (finalise w2, res2)
           | (Some error, w2, res2) \<Rightarrow> (finalise w2, handleRequestError js error res2)))"

subsection \<open>The OpenAI route\<close>

text \<open>\<^verbatim>\<open>processOpenAIRequest\<close> up to the usage counter.\<close>

definition processOpenAIRequest_accept ::
  "config \<Rightarrow> world \<Rightarrow> (int \<times> string) option \<times> world" where
  "processOpenAIRequest_accept cfg w =
     (if pendingSwitch w \<or> isAuthSwitching w
      then (Some (503, ''Server rotating accounts...''), w)
      else (None, countUse cfg True (w\<lparr>activeRequestCount := activeRequestCount w + 1\<rparr>)))"

definition openAIModel :: "serverSystem \<Rightarrow> json \<Rightarrow> json" where
  "openAIModel sys reqBody =
     (let model = (case field reqBody ''model'' of
                     None \<Rightarrow> JStr ''gemini-1.5-pro-latest''
                   | Some v \<Rightarrow> if truthy v then v else JStr ''gemini-1.5-pro-latest'')
      in if redirect25to30 sys \<and> model = JStr ''gemini-2.5-pro''
         then JStr ''gemini-3-pro-preview'' else model)"

definition openAIFrame :: "serverSystem \<Rightarrow> js \<Rightarrow> json \<Rightarrow> json \<Rightarrow> string \<Rightarrow> frame" where
  "openAIFrame sys js reqBody googleBody requestId =
     (let isOpenAIStream = (field reqBody ''stream'' = Some (JBool True));
          googleEndpoint = (if isOpenAIStream then ''streamGenerateContent'' else ''generateContent'')
      in \<lparr>path = ''/v1beta/models/'' @ toString (openAIModel sys reqBody) @ '':'' @ googleEndpoint,
          http_method = ''POST'',
          headers = [(''Content-Type'', ''application/json'')],
          query_params = (if isOpenAIStream then [(''alt'', ''sse'')] else []),
          body = JSON_stringify js googleBody,
          request_id = requestId,
          streaming_mode = ''real'',
          is_generative = Some True,
          client_wants_stream = Some True,
          resume_on_prohibit = enableResume sys,
          resume_limit = resumeLimit sys\<rparr>)"

text \<open>
  The streaming loop of the OpenAI route. The chunk translator
  \<^verbatim>\<open>_translateGoogleToOpenAIStream\<close> draws a random identifier and reads the clock for
  every chunk; it is the parameter \<open>translateChunk\<close> (\<open>None\<close> for \<^verbatim>\<open>null\<close>).
\<close>

fun openAIStreamLoop ::
  "(string \<Rightarrow> string option) \<Rightarrow> deq list \<Rightarrow> response \<Rightarrow> string option \<times> response" where
  "openAIStreamLoop translateChunk [] res = (Some ''Queue timeout'', res)"
| "openAIStreamLoop translateChunk (Rejected e # q) res = (Some e, res)"
| "openAIStreamLoop translateChunk (Msg m # q) res =
     (if msg_type m = ''STREAM_END'' then (None, res_write (''data: [DONE]'' @ nn) res)
      else if has_data m then
        (case translateChunk (the (data m)) of
           None \<Rightarrow> openAIStreamLoop translateChunk q res
         | Some c \<Rightarrow>
             if c \<noteq> [] then openAIStreamLoop translateChunk q (res_write c res)
             else openAIStreamLoop translateChunk q res)
      else openAIStreamLoop translateChunk q res)"

text \<open>\<^verbatim>\<open>(p.text || "")\<close> as appended to a string.\<close>

definition textOrEmpty :: "json \<Rightarrow> string" where
  "textOrEmpty p =
     (case field p ''text'' of None \<Rightarrow> [] | Some v \<Rightarrow> if truthy v then toString v else [])"

text \<open>
  The \<^verbatim>\<open>forEach\<close> over the parts in the non-streaming branch, with the two strings it
  builds.
\<close>

fun collectParts :: "json list \<Rightarrow> string \<Rightarrow> string \<Rightarrow> string + string \<times> string" where
  "collectParts [] responseContent responseReasoning = Inr (responseContent, responseReasoning)"
| "collectParts (p # ps) responseContent responseReasoning =
     (if p = JNull then Inl TypeError
      else if truthy_opt (field p ''inlineData'') then
        collectParts ps
          (responseContent @ ''![Generated Image](data:'' @
             template (field (the (field p ''inlineData'')) ''mimeType'') @ '';base64,'' @
             template (field (the (field p ''inlineData'')) ''data'') @ '')'' @ [CHR 0x0A])
          responseReasoning
      else if truthy_opt (field p ''thought'') then
        collectParts ps responseContent (responseReasoning @ textOrEmpty p)
      else collectParts ps (responseContent @ textOrEmpty p) responseReasoning)"

definition SyntaxError :: string where
  "SyntaxError = ''SyntaxError''"

text \<open>
  The non-streaming answer of the OpenAI route from the buffered body; \<open>now\<close> is
  \<^verbatim>\<open>Math.floor(Date.now() / 1000)\<close> as JSON.
\<close>

definition chatCompletion :: "js \<Rightarrow> json \<Rightarrow> json \<Rightarrow> string \<Rightarrow> string \<Rightarrow> string + json" where
  "chatCompletion js now model requestId fullBody =
     (case JSON_parse js fullBody of
        None \<Rightarrow> Inl SyntaxError
      | Some googleResponse \<Rightarrow>
          (case firstCandidate googleResponse of
             Inl e \<Rightarrow> Inl e
           | Inr candidate \<Rightarrow>
               (case (case candidateParts candidate of
                        None \<Rightarrow> Inr ([], [])
                      | Some (JArr parts) \<Rightarrow> collectParts parts [] []
                      | Some v \<Rightarrow> if truthy v then Inl TypeError else Inr ([], [])) of
                  Inl e \<Rightarrow> Inl e
                | Inr (responseContent, responseReasoning) \<Rightarrow>
                    (let finishReason =
                           (case candidate of
                              None \<Rightarrow> JStr ''UNKNOWN''
                            | Some c \<Rightarrow>
                                (case field c ''finishReason'' of
                                   None \<Rightarrow> JStr ''UNKNOWN''
                                 | Some v \<Rightarrow> if truthy v then v else JStr ''UNKNOWN''))
                     in Inr (JObj
                          [(''id'', JStr (''chatcmpl-'' @ requestId)),
                           (''object'', JStr ''chat.completion''),
                           (''created'', now),
                           (''model'', model),
                           (''choices'', JArr [JObj
                              [(''index'', JNum ''0''),
                               (''message'', JObj
                                  [(''role'', JStr ''assistant''),
                                   (''content'', JStr responseContent),
                                   (''reasoning_content'',
                                      if responseReasoning \<noteq> [] then JStr responseReasoning
                                      else JNull)]),
                               (''finish_reason'', finishReason)]])])))))"

text \<open>The \<^verbatim>\<open>try\<close> block of \<^verbatim>\<open>processOpenAIRequest\<close>, with the error that reaches its \<^verbatim>\<open>catch\<close>.\<close>

definition openAIBody ::
  "config \<Rightarrow> serverSystem \<Rightarrow> js \<Rightarrow> (string \<Rightarrow> string option) \<Rightarrow> json \<Rightarrow> json \<Rightarrow> string
     \<Rightarrow> frame \<Rightarrow> deq list \<Rightarrow> world \<Rightarrow> response \<Rightarrow> string option \<times> world \<times> response" where
  "openAIBody cfg sys js translateChunk now reqBody requestId proxyRequest q w res =
     (let isOpenAIStream = (field reqBody ''stream'' = Some (JBool True)) in
      case forwardRequest proxyRequest w of
        (Inl error, w1) \<Rightarrow> (Some error, w1, res)
      | (Inr u, w1) \<Rightarrow>
          (case dequeue q of
             (Inl error, q1) \<Rightarrow> (Some error, w1, res)
           | (Inr initialMessage, q1) \<Rightarrow>
               if event_type initialMessage = ''error'' then
                 (case handleRequestFailureAndSwitch cfg js initialMessage True w1 res of
                    (w2, res2) \<Rightarrow>
                      (None, w2,
                       if isOpenAIStream then
                         (if \<not> writableEnded res2
                          then res_end (res_write (''data: [DONE]'' @ nn) res2) else res2)
                       else sendErrorResponse js res2
                              (Some (status_or (status initialMessage) 500))
                              (message initialMessage)))
               else
                 (let w2 = resetFailureCount w1 in
                  if isOpenAIStream then
                    (case openAIStreamLoop translateChunk q1 (sse_headers res) of
                       (thrown, res1) \<Rightarrow> (thrown, w2, res1))
                  else
                    (case bufferLoop q1 [] of
                       Inl error \<Rightarrow> (Some error, w2, res)
                     | Inr fullBody \<Rightarrow>
                         (case chatCompletion js now (openAIModel sys reqBody) requestId fullBody of
                            Inl error \<Rightarrow> (Some error, w2, res)
                          | Inr completion \<Rightarrow>
                              (case res_json_checked js completion (res_status 200 res) of
                                 Inl error \<Rightarrow> (Some error, w2, res_status 200 res)
                               | Inr res1 \<Rightarrow> (None, w2, res1)))))))"

definition processOpenAIRequest ::
  "config \<Rightarrow> serverSystem \<Rightarrow> js \<Rightarrow> (string \<Rightarrow> string option) \<Rightarrow> json \<Rightarrow> json \<Rightarrow> string
     \<Rightarrow> deq list \<Rightarrow> world \<Rightarrow> response \<Rightarrow> world \<times> response" where
  "processOpenAIRequest cfg sys js translateChunk now reqBody requestId q w res =
     (case processOpenAIRequest_accept cfg w of
        (Some (st, m), w1) \<Rightarrow> (w1, sendErrorResponse js res (Some st) (Some m))
      | (None, w1) \<Rightarrow>
          (case translateOpenAIToGoogle (enableReasoning sys) reqBody of
             Inl error \<Rightarrow>
               (w1\<lparr>activeRequestCount := activeRequestCount w1 - 1\<rparr>,
                sendErrorResponse js res (Some 400) (Some ''Invalid OpenAI request format.''))
           | Inr googleBody \<Rightarrow>
               (case openAIBody cfg sys js translateChunk now reqBody requestId
                       (openAIFrame sys js reqBody googleBody requestId) q w1 res of
                  (thrown, w2, res2) \<Rightarrow>
                    (let res3 = (case thrown of
                                   None \<Rightarrow> res2
                                 | Some error \<Rightarrow> handleRequestError js error res2)
                     in (finalise w2, if \<not> writableEnded res3 then res_end res3 else res3)))))"

subsection \<open>The model list\<close>

text \<open>The \<^verbatim>\<open>map\<close> of \<^verbatim>\<open>processModelListRequest\<close> over the upstream models.\<close>

fun openaiModels :: "json \<Rightarrow> json list \<Rightarrow> string + json list" where
  "openaiModels now [] = Inr []"
| "openaiModels now (model # ms) =
     (case field model ''name'' of
        Some (JStr name) \<Rightarrow>
          (case openaiModels now ms of
             Inl e \<Rightarrow> Inl e
           | Inr rest \<Rightarrow>
               Inr (JObj [(''id'', JStr (str_replace name ''models/'' [])),
                          (''object'', JStr ''model''),
                          (''created'', now),
                          (''owned_by'', JStr ''google'')] # rest))
      | _ \<Rightarrow> Inl TypeError)"

definition modelListBody ::
  "serverSystem \<Rightarrow> js \<Rightarrow> json \<Rightarrow> frame \<Rightarrow> deq list \<Rightarrow> world \<Rightarrow> response
     \<Rightarrow> string option \<times> world \<times> response" where
  "modelListBody sys js now proxyRequest q w res =
     (case forwardRequest proxyRequest w of
        (Inl error, w1) \<Rightarrow> (Some error, w1, res)
      | (Inr u, w1) \<Rightarrow>
          (case dequeue q of
             (Inl error, q1) \<Rightarrow> (Some error, w1, res)
           | (Inr headerMessage, q1) \<Rightarrow>
               if event_type headerMessage = ''error''
               then (Some (case message headerMessage of
                             None \<Rightarrow> ''Upstream error''
                           | Some m \<Rightarrow> if m = [] then ''Upstream error'' else m), w1, res)
               else
                 (case bufferLoop q1 [] of
                    Inl error \<Rightarrow> (Some error, w1, res)
                  | Inr fullBody \<Rightarrow>
                      (let googleModels =
                             (case JSON_parse js fullBody of
                                None \<Rightarrow> JArr []
                              | Some parsed \<Rightarrow>
                                  (case field parsed ''models'' of
                                     None \<Rightarrow> JArr []
                                   | Some v \<Rightarrow> if truthy v then v else JArr []))
                       in case googleModels of
                            JArr ms \<Rightarrow>
                              (case openaiModels now ms of
                                 Inl error \<Rightarrow> (Some error, w1, res)
                               | Inr models \<Rightarrow>
                                   (case res_json_checked js
                                           (JObj [(''object'', JStr ''list''), (''data'', JArr models)])
                                           (res_status 200 res) of
                                      Inl error \<Rightarrow> (Some error, w1, res_status 200 res)
                                    | Inr res1 \<Rightarrow> (None, w1, res1)))
                          | _ \<Rightarrow> (Some TypeError, w1, res)))))"

definition processModelListRequest ::
  "serverSystem \<Rightarrow> js \<Rightarrow> json \<Rightarrow> request \<Rightarrow> string \<Rightarrow> deq list \<Rightarrow> world \<Rightarrow> response
     \<Rightarrow> world \<times> response" where
  "processModelListRequest sys js now req requestId q w res =
     (case modelListBody sys js now
             ((buildProxyRequest sys js req requestId)
                \<lparr>path := ''/v1beta/models'', http_method := ''GET'', streaming_mode := ''fake''\<rparr>)
             q w res of
        (None, w1, res1) \<Rightarrow> (w1, res1)
      | (Some error, w1, res1) \<Rightarrow>
          (w1, sendErrorResponse js res1 (Some 500) (Some ''Failed to fetch model list.'')))"

section \<open>Runs of requests and example values\<close>

text \<open>
  A request enters by the OpenAI route or by the passthrough route. \<open>accept\<close> is the
  uninterrupted start of its handler. A run is a list of events in their order: a request
  arrives and its handler starts, or a request already accepted completes with success
  (the reset of the failure counter and the end of the \<^verbatim>\<open>finally\<close> block).
  \<open>arrivals\<close> counts the arrivals of a run. \<open>steady\<close> is a state with no switch pending or
  running, the relay connected and the browser idle.
\<close>

datatype route = OpenAI | Passthrough request

definition accept :: "config \<Rightarrow> route \<Rightarrow> world \<Rightarrow> (int \<times> string) option \<times> world" where
  "accept cfg r w =
     (case r of
        OpenAI \<Rightarrow> processOpenAIRequest_accept cfg w
      | Passthrough req \<Rightarrow> processRequest_accept cfg req w)"

definition generative :: "route \<Rightarrow> bool" where
  "generative r = (case r of OpenAI \<Rightarrow> True | Passthrough req \<Rightarrow> isGenerativeRequest req)"

datatype event = Arrive route | Complete

fun run :: "config \<Rightarrow> event list \<Rightarrow> world \<Rightarrow> world" where
  "run cfg [] w = w"
| "run cfg (Arrive r # es) w = run cfg es (snd (accept cfg r w))"
| "run cfg (Complete # es) w = run cfg es (finalise (resetFailureCount w))"

fun arrivals :: "event list \<Rightarrow> int" where
  "arrivals [] = 0"
| "arrivals (Arrive r # es) = 1 + arrivals es"
| "arrivals (Complete # es) = arrivals es"

definition steady :: "world \<Rightarrow> bool" where
  "steady w = (\<not> pendingSwitch w \<and> \<not> isAuthSwitching w \<and> connected w \<and> \<not> isSystemBusy w)"

text \<open>
  The defaults of \<^verbatim>\<open>_loadConfiguration\<close> and of the \<^verbatim>\<open>ProxyServerSystem\<close> constructor, a
  handler as its constructor leaves it with two credentials, the first one loaded and the
  relay connected, and a response nothing was written to.
\<close>

definition defaultConfig :: config where
  "defaultConfig = \<lparr>failureThreshold = 3, switchOnUses = 40, maxRetries = 1, retryDelay = 2000,
     immediateSwitchStatusCodes = [429, 503]\<rparr>"

definition defaultSystem :: serverSystem where
  "defaultSystem = \<lparr>streamingMode = ''real'', enableReasoning = False,
     enableNativeReasoning = False, enableResume = False, resumeLimit = 3,
     redirect25to30 = False\<rparr>"

definition initialWorld :: world where
  "initialWorld = \<lparr>failureCount = 0, usageCount = 0, activeRequestCount = 0,
     pendingSwitch = False, isAuthSwitching = False, isSystemBusy = False,
     currentAuthIndex = 1, availableIndices = [1, 2], connected = True, sent = [],
     browser = (\<lambda>n. LaunchOk True), launches = 0\<rparr>"

definition freshResponse :: response where
  "freshResponse = \<lparr>statusCode = 200, resHeaders = [], headersSent = False,
     writableEnded = False, wire = []\<rparr>"

definition chatRequest :: request where
  "chatRequest = \<lparr>req_method = ''POST'', req_path = ''/v1beta/models/gemini-pro:generateContent'',
     req_headers = [], req_query = [], req_body = Some (JObj [])\<rparr>"

definition abortedError :: relay_msg where
  "abortedError = \<lparr>event_type = ''error'', msg_type = [], status = Some 500,
     message = Some ''The user aborted a request.'', data = None, msg_headers = []\<rparr>"

definition plainFrame :: frame where
  "plainFrame = \<lparr>path = ''/v1beta/models/gemini-pro:streamGenerateContent'',
     http_method = ''POST'', headers = [], query_params = [], body = ''{}'',
     request_id = ''1_a'', streaming_mode = ''fake'', is_generative = Some True,
     client_wants_stream = None, resume_on_prohibit = False, resume_limit = 3\<rparr>"

text \<open>
  An example platform: \<open>plainStringify\<close> is \<^verbatim>\<open>JSON.stringify\<close> on values whose strings need
  no escape.
\<close>

fun plainStringify :: "json \<Rightarrow> string" where
  "plainStringify JNull = ''null''"
| "plainStringify (JBool b) = (if b then ''true'' else ''false'')"
| "plainStringify (JNum n) = n"
| "plainStringify (JStr s) = [CHR 0x22] @ s @ [CHR 0x22]"
| "plainStringify (JArr xs) = ''['' @ join '','' (map plainStringify xs) @ '']''"
| "plainStringify (JObj kvs) =
     ''{'' @ join '','' (map (\<lambda>kv. [CHR 0x22] @ fst kv @ [CHR 0x22] @ '':'' @
        plainStringify (snd kv)) kvs) @ ''}''"

definition noParse :: "string \<Rightarrow> json option" where
  "noParse s = None"

definition plainJs :: js where
  "plainJs = \<lparr>JSON_parse = noParse, JSON_stringify = plainStringify\<rparr>"

definition noChunk :: "string \<Rightarrow> string option" where
  "noChunk s = None"

text \<open>
  The status lines on the wire. A response is \<open>consistent\<close> when it has one status line
  if its headers are sent and none otherwise, as every response of a live server is;
  \<open>grows r r'\<close> says that \<open>r'\<close> comes from \<open>r\<close> by writing more and stays consistent.
\<close>

fun isStatusLine :: "wire \<Rightarrow> bool" where
  "isStatusLine (StatusLine c hs) = True"
| "isStatusLine (Body s) = False"
| "isStatusLine End = False"

definition statusLines :: "response \<Rightarrow> nat" where
  "statusLines r = length (filter isStatusLine (wire r))"

definition consistent :: "response \<Rightarrow> bool" where
  "consistent r = (statusLines r = (if headersSent r then 1 else 0))"

definition grows :: "response \<Rightarrow> response \<Rightarrow> bool" where
  "grows r r' = ((\<exists>ys. wire r' = wire r @ ys) \<and> (consistent r \<longrightarrow> consistent r'))"

definition startedResponse :: response where
  "startedResponse = \<lparr>statusCode = 200, resHeaders = [], headersSent = True,
     writableEnded = False, wire = [StatusLine 200 []]\<rparr>"

definition error429 :: relay_msg where
  "error429 = \<lparr>event_type = ''error'', msg_type = [], status = Some 429,
     message = Some ''Too Many Requests'', data = None, msg_headers = []\<rparr>"

definition okHeaders :: relay_msg where
  "okHeaders = \<lparr>event_type = ''response_headers'', msg_type = [], status = Some 200,
     message = None, data = None, msg_headers = []\<rparr>"

definition modelsRequest :: request where
  "modelsRequest = \<lparr>req_method = ''GET'', req_path = ''/v1/models'', req_headers = [],
     req_query = [], req_body = Some (JObj [])\<rparr>"

definition error500 :: relay_msg where
  "error500 = \<lparr>event_type = ''error'', msg_type = [], status = Some 500,
     message = Some ''x'', data = None, msg_headers = []\<rparr>"

definition chunkMessage :: relay_msg where
  "chunkMessage = \<lparr>event_type = ''chunk'', msg_type = [], status = None,
     message = None, data = Some ''{}'', msg_headers = []\<rparr>"









section \<open>Retries in pseudo streaming\<close>

text \<open>
  Claim C5. In pseudo streaming a relay error whose message contains \<^verbatim>\<open>aborted\<close> ends the
  retry loop: whatever the attempt number, \<^verbatim>\<open>maxRetries\<close> and \<^verbatim>\<open>retryDelay\<close>, the frame
  is forwarded once for the attempt that received the error and never again, the request
  is not marked failed, and the rest of the queue is left untouched. (An attempt beyond
  \<^verbatim>\<open>maxRetries\<close> does not run at all: nothing is forwarded and nothing is dequeued.)
\<close>

theorem aborted_error_never_retried:
  assumes "event_type m = ''error''" and "aborted m"
  shows "attemptLoop cfg proxyRequest attempt lastMessage (Msg m # q) w =
     (if attempt \<le> maxRetries cfg then
        (if connected w then (Inr (Some m, False, q), w\<lparr>sent := sent w @ [proxyRequest]\<rparr>)
         else (Inl ''No available browser connection.'', w))
      else (Inr (lastMessage, False, Msg m # q), w))"
  using assms by (subst attemptLoop.simps) (simp add: forwardRequest_def)

theorem aborted_error_never_retried_witness:
  "event_type abortedError = ''error'' \<and> aborted abortedError \<and>
   attemptLoop (defaultConfig\<lparr>maxRetries := 5\<rparr>) plainFrame 2 None
     [Msg abortedError, Msg STREAM_END] initialWorld =
     (Inr (Some abortedError, False, [Msg STREAM_END]), initialWorld\<lparr>sent := [plainFrame]\<rparr>)"
proof -
  have e: "event_type abortedError = ''error''"
    by (simp add: abortedError_def)
  have a: "aborted abortedError"
    by (simp add: abortedError_def aborted_def startsWith_def)
  show ?thesis
    using e a aborted_error_never_retried [OF e a, of "defaultConfig\<lparr>maxRetries := 5\<rparr>"
        plainFrame 2 None "[Msg STREAM_END]" initialWorld]
    by (simp add: defaultConfig_def initialWorld_def)
qed

section \<open>Pseudo streaming with one retry\<close>

lemma sse_headers_simps:
  "statusCode (sse_headers res) = 200"
  "headersSent (sse_headers res) = headersSent res"
  "writableEnded (sse_headers res) = writableEnded res"
  "wire (sse_headers res) = wire res"
  by (simp_all add: sse_headers_def res_set_def res_status_def)

lemma not_aborted_500: "\<not> aborted error500"
  by (simp add: aborted_def error500_def startsWith_def)

text \<open>
  Claim C4, as stated, fails: the loop bound \<^verbatim>\<open>attempt <= this.maxRetries\<close> counts
  attempts, so \<^verbatim>\<open>maxRetries\<close> = 1 is one attempt and no retry. With the default
  configuration (\<^verbatim>\<open>maxRetries\<close> = 1, \<^verbatim>\<open>failureThreshold\<close> = 3), a first relay answer
  \<^verbatim>\<open>error{status: 500, message: "x"}\<close> fails the request: the frame is forwarded once,
  \<^verbatim>\<open>failureCount\<close> becomes 1 and the client never receives \<^verbatim>\<open>data: [DONE]\<close>, although a
  normal answer is waiting in the queue.
\<close>

theorem no_retry_with_maxRetries_1:
  "maxRetries defaultConfig = 1 \<and>
   failureCount (fst (handlePseudoStreamResponse defaultConfig plainJs plainFrame
     [Msg error500, Msg okHeaders, Msg chunkMessage, Msg STREAM_END] initialWorld freshResponse)) = 1 \<and>
   sent (fst (handlePseudoStreamResponse defaultConfig plainJs plainFrame
     [Msg error500, Msg okHeaders, Msg chunkMessage, Msg STREAM_END] initialWorld freshResponse)) =
     [plainFrame] \<and>
   Body (''data: [DONE]'' @ nn) \<notin> set (wire (snd (handlePseudoStreamResponse defaultConfig plainJs
     plainFrame [Msg error500, Msg okHeaders, Msg chunkMessage, Msg STREAM_END] initialWorld
     freshResponse)))"
proof -
  have l: "attemptLoop defaultConfig plainFrame 1 None
             [Msg error500, Msg okHeaders, Msg chunkMessage, Msg STREAM_END] initialWorld =
           (Inr (Some error500, True, [Msg okHeaders, Msg chunkMessage, Msg STREAM_END]),
            initialWorld\<lparr>sent := [plainFrame]\<rparr>)"
    using not_aborted_500
    by (subst attemptLoop.simps)
      (simp add: forwardRequest_def defaultConfig_def initialWorld_def error500_def)
  have hf: "handleRequestFailureAndSwitch defaultConfig plainJs error500 True
             (initialWorld\<lparr>sent := [plainFrame]\<rparr>) r =
           (initialWorld\<lparr>sent := [plainFrame], failureCount := 1\<rparr>, r)" for r
    by (simp add: handleRequestFailureAndSwitch_def failureDecision_def defaultConfig_def
        error500_def initialWorld_def Let_def)
  have m: "message error500 = Some ''x''"
    by (simp add: error500_def)
  have body: "pseudoStreamBody defaultConfig plainJs plainFrame
                [Msg error500, Msg okHeaders, Msg chunkMessage, Msg STREAM_END] initialWorld
                (sse_headers freshResponse) =
              (None, initialWorld\<lparr>sent := [plainFrame], failureCount := 1\<rparr>,
               sendErrorChunkToClient plainJs (sse_headers freshResponse) (Some ''x''))"
    by (simp add: pseudoStreamBody_def l hf m)
  have mr: "maxRetries defaultConfig = 1"
    by (simp add: defaultConfig_def)
  show ?thesis
    by (simp add: handlePseudoStreamResponse_def body mr)
      (simp add: sendErrorChunkToClient_def res_write_def res_end_def res_flush_def
        sse_headers_simps freshResponse_def nn_def plainJs_def Let_def)
qed

text \<open>
  Claim C4, amended: with \<^verbatim>\<open>maxRetries\<close> = 2 (two attempts, so one retry). If the first
  relay answer to a pseudo-streamed request is an error that does not contain
  \<^verbatim>\<open>aborted\<close>, and the re-forwarded request is answered by headers, one chunk with a
  non-empty payload and the end of the stream, then the frame is forwarded twice, the
  client receives status 200 with the event-stream headers, exactly one
  \<^verbatim>\<open>data: <payload>\<close> event, then \<^verbatim>\<open>data: [DONE]\<close>, then the end, and \<^verbatim>\<open>failureCount\<close> is 0.
  \<^verbatim>\<open>retryDelay\<close> is free.
\<close>

theorem pseudo_stream_one_retry:
  assumes "maxRetries cfg = 2" and "connected w" and "0 \<le> failureCount w"
    and "\<not> headersSent res" and "\<not> writableEnded res"
    and "event_type e = ''error''" and "\<not> aborted e"
    and "event_type h \<noteq> ''error''" and "data d = Some payload" and "payload \<noteq> []"
  shows "handlePseudoStreamResponse cfg js proxyRequest [Msg e, Msg h, Msg d, Msg endMessage] w res =
     (w\<lparr>sent := sent w @ [proxyRequest, proxyRequest], failureCount := 0\<rparr>,
      (sse_headers res)\<lparr>headersSent := True, writableEnded := True,
         wire := wire res @ [StatusLine 200 (resHeaders (sse_headers res)),
                   Body (''data: '' @ payload @ nn), Body (''data: [DONE]'' @ nn), End]\<rparr>)"
proof -
  have l2: "attemptLoop cfg proxyRequest 2 (Some e) [Msg h, Msg d, Msg endMessage]
              (w\<lparr>sent := sent w @ [proxyRequest]\<rparr>) =
            (Inr (Some h, False, [Msg d, Msg endMessage]),
             w\<lparr>sent := sent w @ [proxyRequest, proxyRequest]\<rparr>)"
    using assms by (subst attemptLoop.simps) (simp add: forwardRequest_def)
  have l1: "attemptLoop cfg proxyRequest 1 None [Msg e, Msg h, Msg d, Msg endMessage] w =
            (Inr (Some h, False, [Msg d, Msg endMessage]),
             w\<lparr>sent := sent w @ [proxyRequest, proxyRequest]\<rparr>)"
    using assms l2 by (subst attemptLoop.simps) (simp add: forwardRequest_def)
  show ?thesis
    using assms
    by (simp add: handlePseudoStreamResponse_def pseudoStreamBody_def l1 resetFailureCount_def
        has_data_def res_write_def res_end_def res_flush_def sse_headers_simps Let_def)
qed

theorem pseudo_stream_one_retry_witness:
  "maxRetries (defaultConfig\<lparr>maxRetries := 2, retryDelay := 0\<rparr>) = 2 \<and>
   event_type error500 = ''error'' \<and> \<not> aborted error500 \<and>
   event_type okHeaders \<noteq> ''error'' \<and> data chunkMessage = Some ''{}'' \<and>
   failureCount (fst (handlePseudoStreamResponse (defaultConfig\<lparr>maxRetries := 2, retryDelay := 0\<rparr>)
     plainJs plainFrame [Msg error500, Msg okHeaders, Msg chunkMessage, Msg STREAM_END]
     initialWorld freshResponse)) = 0 \<and>
   wire (snd (handlePseudoStreamResponse (defaultConfig\<lparr>maxRetries := 2, retryDelay := 0\<rparr>)
     plainJs plainFrame [Msg error500, Msg okHeaders, Msg chunkMessage, Msg STREAM_END]
     initialWorld freshResponse)) =
     [StatusLine 200 (resHeaders (sse_headers freshResponse)), Body (''data: {}'' @ nn),
      Body (''data: [DONE]'' @ nn), End]"
proof -
  have a: "maxRetries (defaultConfig\<lparr>maxRetries := 2, retryDelay := 0\<rparr>) = 2" by simp
  have b: "connected initialWorld" by (simp add: initialWorld_def)
  have c: "0 \<le> failureCount initialWorld" by (simp add: initialWorld_def)
  have d: "\<not> headersSent freshResponse" by (simp add: freshResponse_def)
  have e: "\<not> writableEnded freshResponse" by (simp add: freshResponse_def)
  have f: "event_type error500 = ''error''" by (simp add: error500_def)
  have g: "event_type okHeaders \<noteq> ''error''" by (simp add: okHeaders_def)
  have h: "data chunkMessage = Some ''{}''" by (simp add: chunkMessage_def)
  have i: "''{}'' \<noteq> []" by simp
  have j: "wire freshResponse = []" by (simp add: freshResponse_def)
  show ?thesis
    using a f g h j not_aborted_500
      pseudo_stream_one_retry [OF a b c d e f not_aborted_500 g h i, of plainJs plainFrame
        STREAM_END]
    by simp
qed


section \<open>The failure counter\<close>












section \<open>The usage counter\<close>

lemma accept_generative:
  assumes "0 < switchOnUses cfg" and "steady w" and "generative r"
  shows "fst (accept cfg r w) = None"
    and "usageCount (snd (accept cfg r w)) = usageCount w + 1"
    and "pendingSwitch (snd (accept cfg r w)) = (switchOnUses cfg \<le> usageCount w + 1)"
    and "isAuthSwitching (snd (accept cfg r w)) = False"
    and "connected (snd (accept cfg r w))"
    and "isSystemBusy (snd (accept cfg r w)) = False"
    and "activeRequestCount (snd (accept cfg r w)) = activeRequestCount w + 1"
  using assms
  by (auto simp: accept_def generative_def steady_def processOpenAIRequest_accept_def
      processRequest_accept_def countUse_def Let_def split: route.splits)

lemma accept_gate:
  assumes "pendingSwitch w \<or> isAuthSwitching w"
  shows "accept cfg r w = (Some (503, ''Server rotating accounts...''), w)"
  using assms
  by (auto simp: accept_def processOpenAIRequest_accept_def processRequest_accept_def
      split: route.splits)

lemma arrivals_nonneg: "0 \<le> arrivals es"
  by (induction es rule: arrivals.induct) auto

lemma complete_steady:
  assumes "steady w"
  shows "steady (finalise (resetFailureCount w))"
    and "usageCount (finalise (resetFailureCount w)) = usageCount w"
  using assms
  by (simp_all add: steady_def finalise_def resetFailureCount_def tryExecutePendingSwitch_def
      Let_def)

lemma run_count:
  assumes "0 < switchOnUses cfg" and "steady w"
    and "\<forall>r. Arrive r \<in> set es \<longrightarrow> generative r"
    and "usageCount w + arrivals es < switchOnUses cfg"
  shows "steady (run cfg es w) \<and> usageCount (run cfg es w) = usageCount w + arrivals es"
  using assms
proof (induction cfg es w rule: run.induct)
  case (1 cfg w)
  then show ?case by simp
next
  case (2 cfg r es w)
  have g: "generative r" using "2.prems" by simp
  note a = accept_generative [OF "2.prems"(1) "2.prems"(2) g]
  have "usageCount w + 1 < switchOnUses cfg"
    using "2.prems"(4) arrivals_nonneg [of es] by simp
  then have st: "steady (snd (accept cfg r w))" using a by (simp add: steady_def)
  have "usageCount (snd (accept cfg r w)) + arrivals es < switchOnUses cfg"
    using a "2.prems"(4) by simp
  with "2.IH" [OF "2.prems"(1) st] "2.prems"(3) a show ?case by simp
next
  case (3 cfg es w)
  note c = complete_steady [OF "3.prems"(2)]
  from "3.IH" [OF "3.prems"(1) c(1)] "3.prems" c show ?case by simp
qed

text \<open>
  Claim C6. With \<^verbatim>\<open>switchOnUses\<close> = N > 0, start in a steady state with \<^verbatim>\<open>usageCount\<close> = 0
  and let generative requests arrive and accepted requests complete in any order. As long
  as k < N requests have arrived, \<^verbatim>\<open>usageCount\<close> is k and \<^verbatim>\<open>pendingSwitch\<close> is false. The
  next generative request is accepted and makes \<^verbatim>\<open>usageCount\<close> k + 1, and it sets
  \<^verbatim>\<open>pendingSwitch\<close> exactly when k + 1 = N: the N-th request sets it, no earlier one
  does, and a request that follows the N-th is turned away with 503 and counts nothing.
\<close>

theorem pendingSwitch_on_Nth_use:
  assumes "0 < switchOnUses cfg" and "usageCount w = 0" and "steady w"
    and "\<forall>r. Arrive r \<in> set es \<longrightarrow> generative r" and "generative r"
    and "arrivals es < switchOnUses cfg"
  shows "usageCount (run cfg es w) = arrivals es \<and>
         \<not> pendingSwitch (run cfg es w) \<and>
         fst (accept cfg r (run cfg es w)) = None \<and>
         usageCount (run cfg (es @ [Arrive r]) w) = arrivals es + 1 \<and>
         pendingSwitch (run cfg (es @ [Arrive r]) w) = (arrivals es + 1 = switchOnUses cfg) \<and>
         (arrivals es + 1 = switchOnUses cfg \<longrightarrow>
            accept cfg r' (run cfg (es @ [Arrive r]) w) =
              (Some (503, ''Server rotating accounts...''), run cfg (es @ [Arrive r]) w))"
proof -
  have app: "run cfg (es @ [Arrive r]) w = snd (accept cfg r (run cfg es w))" for w
    by (induction cfg es w rule: run.induct) simp_all
  have c: "usageCount w + arrivals es < switchOnUses cfg"
    using assms(2,6) by simp
  note k = run_count [OF assms(1) assms(3) assms(4) c]
  from k have st: "steady (run cfg es w)" by simp
  note a = accept_generative [OF assms(1) st assms(5)]
  have p: "pendingSwitch (run cfg (es @ [Arrive r]) w) = (arrivals es + 1 = switchOnUses cfg)"
    using a(3) k assms(2,6) by (auto simp: app)
  show ?thesis
    using k a p assms(2) st by (auto simp: app steady_def intro: accept_gate)
qed

theorem pendingSwitch_on_Nth_use_witness:
  "usageCount (run (defaultConfig\<lparr>switchOnUses := 2\<rparr>) [Arrive OpenAI, Complete]
      initialWorld) = 1 \<and>
   \<not> pendingSwitch (run (defaultConfig\<lparr>switchOnUses := 2\<rparr>) [Arrive OpenAI, Complete]
      initialWorld) \<and>
   usageCount (run (defaultConfig\<lparr>switchOnUses := 2\<rparr>)
      [Arrive OpenAI, Complete, Arrive (Passthrough chatRequest)] initialWorld) = 2 \<and>
   pendingSwitch (run (defaultConfig\<lparr>switchOnUses := 2\<rparr>)
      [Arrive OpenAI, Complete, Arrive (Passthrough chatRequest)] initialWorld) \<and>
   fst (accept (defaultConfig\<lparr>switchOnUses := 2\<rparr>) OpenAI
      (run (defaultConfig\<lparr>switchOnUses := 2\<rparr>)
         [Arrive OpenAI, Complete, Arrive (Passthrough chatRequest)] initialWorld)) =
     Some (503, ''Server rotating accounts...'')"
proof -
  have n: "0 < switchOnUses (defaultConfig\<lparr>switchOnUses := 2\<rparr>)" by simp
  have u: "usageCount initialWorld = 0" by (simp add: initialWorld_def)
  have s: "steady initialWorld" by (simp add: steady_def initialWorld_def)
  have g: "generative (Passthrough chatRequest)"
    by (simp add: generative_def isGenerativeRequest_def chatRequest_def startsWith_def)
  have g1: "\<forall>r. Arrive r \<in> set [Arrive OpenAI, Complete] \<longrightarrow> generative r"
    by (simp add: generative_def)
  have l: "arrivals [Arrive OpenAI, Complete] < switchOnUses (defaultConfig\<lparr>switchOnUses := 2\<rparr>)"
    by simp
  show ?thesis
    using pendingSwitch_on_Nth_use [OF n u s g1 g l, of OpenAI]
    by simp
qed

section \<open>A chat request that cannot be translated\<close>



section \<open>The translation of an OpenAI request\<close>










section \<open>Requests that do not want streaming\<close>












lemma plainStringify_nonempty: "plainStringify (JObj kvs) \<noteq> []"
  by simp




section \<open>When a rotation begins\<close>

text \<open>
  Claim C1, as stated, fails: a rotation triggered by a failure begins inside the request
  that saw the error, so with that request still counted. With the default configuration,
  one accepted request (\<^verbatim>\<open>activeRequestCount\<close> = 1) receives the relay error 429, an
  immediate-switch status: \<^verbatim>\<open>_handleRequestFailureAndSwitch\<close> decides to switch,
  \<^verbatim>\<open>_switchToNextAuth\<close> begins with \<^verbatim>\<open>activeRequestCount\<close> = 1, and at the end of this one
  request the credential is the second one.
\<close>

theorem rotation_begins_with_request_in_flight:
  "fst (processRequest_accept defaultConfig chatRequest initialWorld) = None \<and>
   activeRequestCount (snd (processRequest_accept defaultConfig chatRequest initialWorld)) = 1 \<and>
   fst (failureDecision defaultConfig error429
     (snd (processRequest_accept defaultConfig chatRequest initialWorld))) \<and>
   activeRequestCount (snd (failureDecision defaultConfig error429
     (snd (processRequest_accept defaultConfig chatRequest initialWorld)))) = 1 \<and>
   switchToNextAuth_begin (snd (failureDecision defaultConfig error429
     (snd (processRequest_accept defaultConfig chatRequest initialWorld)))) \<noteq> None \<and>
   currentAuthIndex initialWorld = 1 \<and>
   currentAuthIndex (fst (processRequest defaultConfig defaultSystem plainJs chatRequest ''1_a''
     [Msg error429] initialWorld freshResponse)) = 2"
  by (simp add: processRequest_def processRequest_accept_def countUse_def Let_def
      isGenerativeRequest_def chatRequest_def initialWorld_def defaultConfig_def
      defaultSystem_def startsWith_def failureDecision_def error429_def
      switchToNextAuth_begin_def dispatch_def wantsStream_def handleNonStreamResponse_def
      forwardRequest_def nonStreamBody_def handleRequestFailureAndSwitch_def
      switchToNextAuth_def switchToNextAuth_run_def getNextAuthIndex_def switchAccount_def
      launchOrSwitchContext_def switch_finally_def finalise_def tryExecutePendingSwitch_def)

text \<open>
  Claim C1, amended. Whenever a rotation begins, \<^verbatim>\<open>isAuthSwitching\<close> is false, and it is
  true from then on until the switch ends: \<^verbatim>\<open>_switchToNextAuth\<close> and
  \<^verbatim>\<open>_switchToSpecificAuth\<close> return at once when a switch is running. The deferred rotation
  of \<^verbatim>\<open>_tryExecutePendingSwitch\<close> begins only when moreover \<^verbatim>\<open>pendingSwitch\<close> holds and
  \<^verbatim>\<open>activeRequestCount\<close> is 0. A rotation decided by \<^verbatim>\<open>_handleRequestFailureAndSwitch\<close>
  (threshold reached or immediate status) begins whenever no switch is running, whatever
  \<^verbatim>\<open>activeRequestCount\<close> is.
\<close>

theorem rotation_begin_conditions:
  "(switchToNextAuth_begin w = Some w1 \<longrightarrow> \<not> isAuthSwitching w \<and> isAuthSwitching w1) \<and>
   (switchToSpecificAuth_begin targetIndex w = Inr w1 \<longrightarrow>
      \<not> isAuthSwitching w \<and> isAuthSwitching w1) \<and>
   (tryExecutePendingSwitch_begin w = Some w1 \<longrightarrow>
      pendingSwitch w \<and> activeRequestCount w = 0 \<and> \<not> isAuthSwitching w \<and> isAuthSwitching w1) \<and>
   (isAuthSwitching w \<longrightarrow>
      switchToNextAuth w = (Inr Busy, w) \<and>
      switchToSpecificAuth targetIndex w = (Inr Busy, w) \<and>
      tryExecutePendingSwitch w = w) \<and>
   (fst (failureDecision cfg errorDetails w) \<and> \<not> isAuthSwitching w \<longrightarrow>
      switchToNextAuth_begin (snd (failureDecision cfg errorDetails w)) =
        Some ((snd (failureDecision cfg errorDetails w))
                \<lparr>isSystemBusy := True, isAuthSwitching := True\<rparr>))"
  by (auto simp: switchToNextAuth_begin_def switchToSpecificAuth_begin_def
      tryExecutePendingSwitch_begin_def switchToNextAuth_def switchToSpecificAuth_def
      tryExecutePendingSwitch_def failureDecision_def Let_def split: if_splits)

theorem rotation_begin_conditions_witness:
  "switchToNextAuth_begin initialWorld =
     Some (initialWorld\<lparr>isSystemBusy := True, isAuthSwitching := True\<rparr>) \<and>
   switchToSpecificAuth_begin 2 initialWorld =
     Inr (initialWorld\<lparr>isSystemBusy := True, isAuthSwitching := True\<rparr>) \<and>
   tryExecutePendingSwitch_begin (initialWorld\<lparr>pendingSwitch := True\<rparr>) =
     Some (initialWorld\<lparr>pendingSwitch := True, isSystemBusy := True, isAuthSwitching := True\<rparr>) \<and>
   \<not> isAuthSwitching initialWorld \<and>
   activeRequestCount (initialWorld\<lparr>pendingSwitch := True\<rparr>) = 0 \<and>
   isAuthSwitching (initialWorld\<lparr>isAuthSwitching := True\<rparr>) \<and>
   switchToNextAuth (initialWorld\<lparr>isAuthSwitching := True\<rparr>) =
     (Inr Busy, initialWorld\<lparr>isAuthSwitching := True\<rparr>) \<and>
   fst (failureDecision defaultConfig error429 (initialWorld\<lparr>activeRequestCount := 3\<rparr>)) \<and>
   switchToNextAuth_begin
     (snd (failureDecision defaultConfig error429 (initialWorld\<lparr>activeRequestCount := 3\<rparr>))) \<noteq> None"
proof -
  have a: "switchToNextAuth_begin initialWorld =
     Some (initialWorld\<lparr>isSystemBusy := True, isAuthSwitching := True\<rparr>)"
    by (simp add: switchToNextAuth_begin_def initialWorld_def)
  have b: "switchToSpecificAuth_begin 2 initialWorld =
     Inr (initialWorld\<lparr>isSystemBusy := True, isAuthSwitching := True\<rparr>)"
    by (simp add: switchToSpecificAuth_begin_def initialWorld_def)
  have c: "tryExecutePendingSwitch_begin (initialWorld\<lparr>pendingSwitch := True\<rparr>) =
     Some (initialWorld\<lparr>pendingSwitch := True, isSystemBusy := True, isAuthSwitching := True\<rparr>)"
    by (simp add: tryExecutePendingSwitch_begin_def switchToNextAuth_begin_def initialWorld_def)
  have d: "isAuthSwitching (initialWorld\<lparr>isAuthSwitching := True\<rparr>)"
    by simp
  have e: "fst (failureDecision defaultConfig error429 (initialWorld\<lparr>activeRequestCount := 3\<rparr>))"
    by (simp add: failureDecision_def defaultConfig_def error429_def Let_def)
  have f: "\<not> isAuthSwitching (initialWorld\<lparr>activeRequestCount := 3\<rparr>)"
    by (simp add: initialWorld_def)
  show ?thesis
    using a b c d e f
      rotation_begin_conditions [of initialWorld
        "initialWorld\<lparr>isSystemBusy := True, isAuthSwitching := True\<rparr>" 2 defaultConfig error429]
      rotation_begin_conditions [of "initialWorld\<lparr>pendingSwitch := True\<rparr>"
        "initialWorld\<lparr>pendingSwitch := True, isSystemBusy := True, isAuthSwitching := True\<rparr>"
        2 defaultConfig error429]
      rotation_begin_conditions [of "initialWorld\<lparr>isAuthSwitching := True\<rparr>" initialWorld 2
        defaultConfig error429]
      rotation_begin_conditions [of "initialWorld\<lparr>activeRequestCount := 3\<rparr>" initialWorld 2
        defaultConfig error429]
    by simp
qed

section \<open>The acceptance gate\<close>

lemma lower_content_type: "toLowerCase ''Content-Type'' = ''content-type''"
  by code_simp

lemma gate_rejects:
  assumes "pendingSwitch w \<or> isAuthSwitching w"
  shows "processRequest cfg sys js req requestId q w res =
           (w, sendErrorResponse js res (Some 503) (Some ''Server rotating accounts...''))"
    and "processOpenAIRequest cfg sys js translateChunk now reqBody requestId q w res =
           (w, sendErrorResponse js res (Some 503) (Some ''Server rotating accounts...''))"
  using assms
  by (auto simp: processRequest_def processRequest_accept_def processOpenAIRequest_def
      processOpenAIRequest_accept_def)

text \<open>
  Claim C2 at the input where the code departs from it: \<^verbatim>\<open>GET /v1/models\<close> while a switch
  is pending. \<^verbatim>\<open>processModelListRequest\<close> has no gate: the request is forwarded to the
  relay and answered 200, where the passthrough and the OpenAI handlers, in the same
  state, answer 503 and forward nothing.
\<close>

theorem model_list_served_while_switch_pending:
  "pendingSwitch (initialWorld\<lparr>pendingSwitch := True\<rparr>) \<and>
   hd (wire (snd (processModelListRequest defaultSystem plainJs (JNum ''0'') modelsRequest ''1_a''
     [Msg okHeaders, Msg STREAM_END] (initialWorld\<lparr>pendingSwitch := True\<rparr>) freshResponse))) =
     StatusLine 200 [(''content-type'', ''application/json'')] \<and>
   map path (sent (fst (processModelListRequest defaultSystem plainJs (JNum ''0'') modelsRequest
     ''1_a'' [Msg okHeaders, Msg STREAM_END] (initialWorld\<lparr>pendingSwitch := True\<rparr>)
     freshResponse))) = [''/v1beta/models''] \<and>
   hd (wire (snd (processRequest defaultConfig defaultSystem plainJs chatRequest ''1_a''
     [Msg okHeaders, Msg STREAM_END] (initialWorld\<lparr>pendingSwitch := True\<rparr>) freshResponse))) =
     StatusLine 503 [(''content-type'', ''application/json'')] \<and>
   sent (fst (processRequest defaultConfig defaultSystem plainJs chatRequest ''1_a''
     [Msg okHeaders, Msg STREAM_END] (initialWorld\<lparr>pendingSwitch := True\<rparr>) freshResponse)) = [] \<and>
   hd (wire (snd (processOpenAIRequest defaultConfig defaultSystem plainJs noChunk (JNum ''0'')
     (JObj []) ''1_a'' [Msg okHeaders, Msg STREAM_END] (initialWorld\<lparr>pendingSwitch := True\<rparr>)
     freshResponse))) = StatusLine 503 [(''content-type'', ''application/json'')]"
  by (simp add: processModelListRequest_def modelListBody_def buildProxyRequest_def
      forwardRequest_def initialWorld_def defaultSystem_def modelsRequest_def okHeaders_def
      STREAM_END_def has_data_def plainJs_def noParse_def res_json_checked_def res_json_def
      res_status_def res_set_def res_write_def res_end_def res_flush_def freshResponse_def
      lower_content_type truthy_opt_def Let_def
      processRequest_def processRequest_accept_def processOpenAIRequest_def
      processOpenAIRequest_accept_def sendErrorResponse_def status_or_def)

section \<open>One response start for a request\<close>

lemma grows_refl: "grows r r"
  by (simp add: grows_def)

lemma grows_trans: "grows a b \<Longrightarrow> grows b c \<Longrightarrow> grows a c"
  by (auto simp: grows_def)

lemma g_status: "grows a b \<Longrightarrow> grows a (res_status c b)"
  by (erule grows_trans) (simp add: grows_def res_status_def consistent_def statusLines_def)

lemma g_set: "grows a b \<Longrightarrow> grows a (res_set k v b)"
  by (erule grows_trans) (simp add: grows_def res_set_def consistent_def statusLines_def)

lemma g_write: "grows a b \<Longrightarrow> grows a (res_write s b)"
  by (erule grows_trans)
    (simp add: grows_def res_write_def res_flush_def consistent_def statusLines_def)

lemma g_end: "grows a b \<Longrightarrow> grows a (res_end b)"
  by (erule grows_trans)
    (simp add: grows_def res_end_def res_flush_def consistent_def statusLines_def)

lemma g_json: "grows a b \<Longrightarrow> grows a (res_json js j b)"
  unfolding res_json_def by (auto intro!: g_end g_write g_set)

lemma g_type_send: "grows a b \<Longrightarrow> grows a (res_type_send t s b)"
  unfolding res_type_send_def by (auto intro!: g_end g_write g_set)

lemma g_err: "grows a b \<Longrightarrow> grows a (sendErrorResponse js b st m)"
  unfolding sendErrorResponse_def by (auto intro!: g_json g_status)

lemma g_hre: "grows a b \<Longrightarrow> grows a (handleRequestError js e b)"
  unfolding handleRequestError_def by (auto simp: Let_def intro!: g_err g_end)

lemma g_chunk: "grows a b \<Longrightarrow> grows a (sendErrorChunkToClient js b m)"
  unfolding sendErrorChunkToClient_def by (auto simp: Let_def intro!: g_write)

lemma g_sse: "grows a b \<Longrightarrow> grows a (sse_headers b)"
  unfolding sse_headers_def by (auto intro!: g_set g_status)

lemmas g_safe = g_status g_set g_write g_end g_json g_type_send g_err g_hre g_chunk g_sse

lemma g_fail:
  "handleRequestFailureAndSwitch cfg js m wr w b = (w', b') \<Longrightarrow> grows a b \<Longrightarrow> grows a b'"
  unfolding handleRequestFailureAndSwitch_def
  by (auto split: prod.splits sum.splits switchResult.splits bool.splits if_splits intro!: g_safe)

lemma grows_pseudoBody:
  "pseudoStreamBody cfg js pr q w r = (t, w', r') \<Longrightarrow> grows a r \<Longrightarrow> grows a r'"
  unfolding pseudoStreamBody_def
  by (auto simp: Let_def split: prod.splits sum.splits option.splits if_splits
      intro!: g_safe dest: g_fail)

lemma grows_pseudo:
  "handlePseudoStreamResponse cfg js pr q w r = (w', r') \<Longrightarrow> grows a r \<Longrightarrow> grows a r'"
  unfolding handlePseudoStreamResponse_def
  by (auto simp: Let_def split: prod.splits option.splits if_splits
      intro!: g_safe dest: grows_pseudoBody [where a = a])

lemma grows_copyHeaders: "grows a r \<Longrightarrow> grows a (copyHeaders b hs r)"
  by (induction b hs r rule: copyHeaders.induct) (auto intro!: g_safe)

lemma grows_setResponseHeaders: "grows a r \<Longrightarrow> grows a (setResponseHeaders r m b)"
  unfolding setResponseHeaders_def by (auto simp: Let_def intro!: g_safe grows_copyHeaders)

lemma grows_realLoop: "realStreamLoop q r = (t, r') \<Longrightarrow> grows a r \<Longrightarrow> grows a r'"
  by (induction q r rule: realStreamLoop.induct) (auto split: if_splits intro!: g_safe)

lemma grows_real:
  "handleRealStreamResponse cfg js pr q w r = (t, w', r') \<Longrightarrow> grows a r \<Longrightarrow> grows a r'"
  unfolding handleRealStreamResponse_def
  by (auto simp: Let_def split: prod.splits sum.splits option.splits if_splits
      intro!: g_safe grows_setResponseHeaders dest: g_fail grows_realLoop [where a = a])

lemma grows_nonStreamBody:
  "nonStreamBody cfg js q w r = (t, w', r') \<Longrightarrow> grows a r \<Longrightarrow> grows a r'"
  unfolding nonStreamBody_def res_type_send_checked_def
  by (auto simp: Let_def split: prod.splits sum.splits option.splits if_splits
      intro!: g_safe dest: g_fail)

lemma grows_nonStream:
  "handleNonStreamResponse cfg js pr q w r = (t, w', r') \<Longrightarrow> grows a r \<Longrightarrow> grows a r'"
  unfolding handleNonStreamResponse_def
  by (auto simp: Let_def split: prod.splits sum.splits option.splits if_splits
      intro!: g_safe dest: grows_nonStreamBody [where a = a])

lemma grows_dispatch:
  "dispatch cfg sys js req pr q w r = (t, w', r') \<Longrightarrow> grows a r \<Longrightarrow> grows a r'"
  unfolding dispatch_def
  by (auto split: prod.splits if_splits
      dest: grows_nonStream [where a = a] grows_real [where a = a] grows_pseudo [where a = a])

lemma grows_processRequest:
  "processRequest cfg sys js req rid q w r = (w', r') \<Longrightarrow> grows r r'"
  unfolding processRequest_def
  by (auto split: prod.splits option.splits if_splits
      intro!: g_safe grows_refl dest: grows_dispatch [where a = r])

lemma grows_openAILoop: "openAIStreamLoop tc q r = (t, r') \<Longrightarrow> grows a r \<Longrightarrow> grows a r'"
  by (induction tc q r rule: openAIStreamLoop.induct)
    (auto split: if_splits option.splits intro!: g_safe)

lemma grows_openAIBody:
  "openAIBody cfg sys js tc now rb rid pr q w r = (t, w', r') \<Longrightarrow> grows a r \<Longrightarrow> grows a r'"
  unfolding openAIBody_def res_json_checked_def
  by (auto simp: Let_def split: prod.splits sum.splits option.splits if_splits
      intro!: g_safe dest: g_fail grows_openAILoop [where a = a])

lemma grows_processOpenAIRequest:
  "processOpenAIRequest cfg sys js tc now rb rid q w r = (w', r') \<Longrightarrow> grows r r'"
  unfolding processOpenAIRequest_def
  by (auto simp: Let_def split: prod.splits sum.splits option.splits if_splits
      intro!: g_safe grows_refl dest: grows_openAIBody [where a = r])

lemma grows_modelListBody:
  "modelListBody sys js now pr q w r = (t, w', r') \<Longrightarrow> grows a r \<Longrightarrow> grows a r'"
  unfolding modelListBody_def res_json_checked_def
  by (auto simp: Let_def split: prod.splits sum.splits option.splits if_splits json.splits
      intro!: g_safe)

lemma grows_processModelListRequest:
  "processModelListRequest sys js now req rid q w r = (w', r') \<Longrightarrow> grows r r'"
  unfolding processModelListRequest_def
  by (auto simp: Let_def split: prod.splits sum.splits option.splits if_splits
      intro!: g_safe grows_refl dest: grows_modelListBody [where a = r])

lemma grows_once:
  assumes "grows r r'" and "consistent r"
  shows "statusLines r' \<le> 1 \<and> (\<exists>ys. wire r' = wire r @ ys)"
  using assms by (auto simp: grows_def consistent_def split: if_splits)

text \<open>
  Claim C8. The client receives at most one response start. From a consistent response,
  each of the three handlers only appends to what the client has received, and the
  result holds at most one status line; so a status line once written is never changed
  or repeated. Once the headers are sent, \<^verbatim>\<open>_sendErrorResponse\<close> does nothing and
  \<^verbatim>\<open>_handleRequestError\<close> only ends the response.
\<close>

theorem at_most_one_response_start:
  assumes "consistent res"
  shows
    "(statusLines (snd (processRequest cfg sys js req requestId q w res)) \<le> 1 \<and>
      (\<exists>ys. wire (snd (processRequest cfg sys js req requestId q w res)) = wire res @ ys)) \<and>
     (statusLines (snd (processOpenAIRequest cfg sys js translateChunk now reqBody requestId q w res)) \<le> 1 \<and>
      (\<exists>ys. wire (snd (processOpenAIRequest cfg sys js translateChunk now reqBody requestId q w res)) =
         wire res @ ys)) \<and>
     (statusLines (snd (processModelListRequest sys js now req requestId q w res)) \<le> 1 \<and>
      (\<exists>ys. wire (snd (processModelListRequest sys js now req requestId q w res)) = wire res @ ys)) \<and>
     (headersSent res \<longrightarrow>
        sendErrorResponse js res st m = res \<and>
        handleRequestError js e res =
          (if writableEnded res then res
           else res\<lparr>writableEnded := True, wire := wire res @ [End]\<rparr>))"
proof -
  have a: "grows res (snd (processRequest cfg sys js req requestId q w res))"
    by (rule grows_processRequest [OF prod.collapse [symmetric]])
  have b: "grows res (snd (processOpenAIRequest cfg sys js translateChunk now reqBody requestId q w res))"
    by (rule grows_processOpenAIRequest [OF prod.collapse [symmetric]])
  have c: "grows res (snd (processModelListRequest sys js now req requestId q w res))"
    by (rule grows_processModelListRequest [OF prod.collapse [symmetric]])
  have d: "headersSent res \<longrightarrow>
        sendErrorResponse js res st m = res \<and>
        handleRequestError js e res =
          (if writableEnded res then res
           else res\<lparr>writableEnded := True, wire := wire res @ [End]\<rparr>)"
    by (simp add: sendErrorResponse_def handleRequestError_def res_end_def res_flush_def)
  show ?thesis
    using grows_once [OF a assms] grows_once [OF b assms] grows_once [OF c assms] d
    by blast
qed

theorem at_most_one_response_start_witness:
  "consistent startedResponse \<and> headersSent startedResponse \<and>
   statusLines (snd (processRequest defaultConfig defaultSystem plainJs chatRequest ''1_a'' []
     initialWorld startedResponse)) \<le> 1 \<and>
   sendErrorResponse plainJs startedResponse (Some 500) (Some ''Queue timeout'') =
     startedResponse \<and>
   handleRequestError plainJs ''Queue timeout'' startedResponse =
     startedResponse\<lparr>writableEnded := True, wire := [StatusLine 200 [], End]\<rparr>"
proof -
  have c: "consistent startedResponse"
    by (simp add: consistent_def statusLines_def startedResponse_def)
  have h: "headersSent startedResponse"
    by (simp add: startedResponse_def)
  have e: "\<not> writableEnded startedResponse"
    by (simp add: startedResponse_def)
  have w: "wire startedResponse @ [End] = [StatusLine 200 [], End]"
    by (simp add: startedResponse_def)
  show ?thesis
    using c h e w at_most_one_response_start [OF c, of defaultConfig defaultSystem plainJs
        chatRequest "''1_a''" "[]" initialWorld noChunk "JNum ''0''" "JObj []" "Some 500"
        "Some ''Queue timeout''" "''Queue timeout''"]
    by simp
qed

end
